theory Spec2Isabelle
  imports Main
begin

section \<open>Strings as the hours utilities use them\<close>

text \<open>
  The hours utilities of \<^verbatim>\<open>src/utils/csvParser.ts\<close> (second document of the file,
  the module \<^verbatim>\<open>@/utils/hours\<close>) work on JavaScript strings. A string is modelled as
  a \<^typ>\<open>string\<close>, each \<^typ>\<open>char\<close> standing for one UTF-16 code unit below 256
  (ASCII and Latin-1). Code units from 256 on are outside the model.
\<close>

text \<open>White space of \<^verbatim>\<open>String.prototype.trim\<close> and of the regular expression class
  \<^verbatim>\<open>\s\<close>: TAB, LF, VT, FF, CR, SP and NBSP are the ones below 256.\<close>

definition isWhiteSpace :: "char \<Rightarrow> bool" where
  "isWhiteSpace c = (c \<in> set [CHR 0x09, CHR 0x0A, CHR 0x0B, CHR 0x0C, CHR 0x0D, CHR 0x20, CHR 0xA0])"

text \<open>The regular expression class \<^verbatim>\<open>\d\<close>: the ten ASCII digits.\<close>

definition isDigit :: "char \<Rightarrow> bool" where
  "isDigit c = (c \<in> set ''0123456789'')"

definition digitVal :: "char \<Rightarrow> nat" where
  "digitVal c = of_char c - 48"

text \<open>\<^verbatim>\<open>toLowerCase\<close>, one code unit at a time: \<^verbatim>\<open>A-Z\<close> and the Latin-1 capitals
  (0xC0 to 0xDE without the multiplication sign 0xD7) move up by 32.\<close>

definition toLowerChar :: "char \<Rightarrow> char" where
  "toLowerChar c =
     (let n = (of_char c :: nat)
      in if (65 \<le> n \<and> n \<le> 90) \<or> (192 \<le> n \<and> n \<le> 222 \<and> n \<noteq> 215)
         then char_of (n + 32) else c)"

definition toLowerCase :: "string \<Rightarrow> string" where
  "toLowerCase s = map toLowerChar s"

text \<open>\<^verbatim>\<open>toUpperCase\<close> is only ever applied to the matched period (the letters of AM and PM),
  so the ASCII letters are all that is modelled.\<close>

definition toUpperChar :: "char \<Rightarrow> char" where
  "toUpperChar c =
     (let n = (of_char c :: nat)
      in if 97 \<le> n \<and> n \<le> 122 then char_of (n - 32) else c)"

definition toUpperCase :: "string \<Rightarrow> string" where
  "toUpperCase s = map toUpperChar s"

definition trim :: "string \<Rightarrow> string" where
  "trim s = rev (dropWhile isWhiteSpace (rev (dropWhile isWhiteSpace s)))"

fun startsWith :: "string \<Rightarrow> string \<Rightarrow> bool" where
  "startsWith s [] = True"
| "startsWith [] (p # ps) = False"
| "startsWith (x # xs) (p # ps) = (x = p \<and> startsWith xs ps)"

text \<open>\<^verbatim>\<open>s.includes(sub)\<close>: \<open>sub\<close> occurs at some position of \<open>s\<close>.\<close>

fun includesStr :: "string \<Rightarrow> string \<Rightarrow> bool" where
  "includesStr [] sub = startsWith [] sub"
| "includesStr (x # xs) sub = (startsWith (x # xs) sub \<or> includesStr xs sub)"

text \<open>\<^verbatim>\<open>s.split(c)\<close> for a separator of one character: always at least one piece,
  \<^verbatim>\<open>"".split(c)\<close> being \<^verbatim>\<open>[""]\<close>.\<close>

fun split :: "char \<Rightarrow> string \<Rightarrow> string list" where
  "split c [] = [[]]"
| "split c (x # xs) =
     (if x = c then [] # split c xs
      else (case split c xs of
              [] \<Rightarrow> [[x]]
            | p # ps \<Rightarrow> (x # p) # ps))"

text \<open>\<^verbatim>\<open>pieces.join(c)\<close>.\<close>

fun join :: "char \<Rightarrow> string list \<Rightarrow> string" where
  "join c [] = []"
| "join c [p] = p"
| "join c (p # q # ps) = p @ c # join c (q # ps)"

text \<open>Comparison of strings by \<^verbatim>\<open><\<close> and \<^verbatim>\<open><=\<close>: lexicographic on the code units,
  a proper prefix being smaller.\<close>

fun strLess :: "string \<Rightarrow> string \<Rightarrow> bool" where
  "strLess [] [] = False"
| "strLess [] (y # ys) = True"
| "strLess (x # xs) [] = False"
| "strLess (x # xs) (y # ys) =
     ((of_char x :: nat) < of_char y \<or> (x = y \<and> strLess xs ys))"

definition strLessEq :: "string \<Rightarrow> string \<Rightarrow> bool" where
  "strLessEq a b = (a = b \<or> strLess a b)"

text \<open>\<^verbatim>\<open>n.toString()\<close> of a non-negative integer, and of an integer.\<close>

fun natToString :: "nat \<Rightarrow> string" where
  "natToString n =
     (if n < 10 then [char_of (48 + n)]
      else natToString (n div 10) @ [char_of (48 + n mod 10)])"

declare natToString.simps [simp del]

definition intToString :: "int \<Rightarrow> string" where
  "intToString i = (if i < 0 then CHR ''-'' # natToString (nat (- i)) else natToString (nat i))"

text \<open>\<^verbatim>\<open>s.padStart(2, '0')\<close>.\<close>

definition padStart2 :: "string \<Rightarrow> string" where
  "padStart2 s = replicate (2 - length s) CHR ''0'' @ s"

text \<open>\<^verbatim>\<open>parseInt(s, 10)\<close> on a run of decimal digits.\<close>

definition digitsToNat :: "string \<Rightarrow> nat" where
  "digitsToNat ds = foldl (\<lambda>acc d. acc * 10 + digitVal d) 0 ds"

text \<open>\<^verbatim>\<open>parseInt(s, 10)\<close> on any string: leading white space is skipped, a sign is read,
  then the longest run of digits; \<open>None\<close> is \<^verbatim>\<open>NaN\<close> (no digit there). The result is
  the exact integer; JavaScript rounds it to a double from 2^53 on.\<close>

definition parseInt :: "string \<Rightarrow> int option" where
  "parseInt s =
     (let t = dropWhile isWhiteSpace s;
          neg = (case t of [] \<Rightarrow> False | c # _ \<Rightarrow> c = CHR ''-'');
          u = (case t of [] \<Rightarrow> [] | c # r \<Rightarrow> if c = CHR ''-'' \<or> c = CHR ''+'' then r else t);
          ds = takeWhile isDigit u
      in if ds = [] then None
         else Some (if neg then - int (digitsToNat ds) else int (digitsToNat ds)))"

section \<open>The time token pattern\<close>

text \<open>
  The regular expression \<^verbatim>\<open>/(\d{1,2}):?(\d{2})?\s*(AM|PM)/i\<close> matched at the start of a
  string, with the backtracking order of its greedy quantifiers: two hour digits before
  one, a colon before none, a minute group before none. A match is the three groups and
  the text that follows the match. After the longest run of white space comes a
  character that is no white space, and AM or PM cannot start with white space, so no
  shorter run of \<^verbatim>\<open>\s*\<close> can succeed where the longest fails.
\<close>

record tokenMatch =
  hourGroup :: string
  minuteGroup :: "string option"
  periodGroup :: string
  afterMatch :: string

fun orElse :: "'a option \<Rightarrow> 'a option \<Rightarrow> 'a option" where
  "orElse (Some x) alt = Some x"
| "orElse None alt = alt"

text \<open>\<^verbatim>\<open>(AM|PM)\<close> under the flag \<^verbatim>\<open>i\<close>.\<close>

fun matchPeriod :: "string \<Rightarrow> (string \<times> string) option" where
  "matchPeriod (a # b # rest) =
     (if (a \<in> set ''Aa'' \<and> b \<in> set ''Mm'') \<or> (a \<in> set ''Pp'' \<and> b \<in> set ''Mm'')
      then Some ([a, b], rest) else None)"
| "matchPeriod _ = None"

text \<open>\<^verbatim>\<open>\s*(AM|PM)\<close>.\<close>

definition matchSpacePeriod :: "string \<Rightarrow> (string \<times> string) option" where
  "matchSpacePeriod s = matchPeriod (dropWhile isWhiteSpace s)"

text \<open>\<^verbatim>\<open>(\d{2})?\s*(AM|PM)\<close>.\<close>

definition matchMinute :: "string \<Rightarrow> (string option \<times> string \<times> string) option" where
  "matchMinute s =
     orElse
       (case s of
          a # b # r \<Rightarrow>
            if isDigit a \<and> isDigit b
            then map_option (\<lambda>(p, rest). (Some [a, b], p, rest)) (matchSpacePeriod r)
            else None
        | _ \<Rightarrow> None)
       (map_option (\<lambda>(p, rest). (None, p, rest)) (matchSpacePeriod s))"

text \<open>\<^verbatim>\<open>:?(\d{2})?\s*(AM|PM)\<close>.\<close>

definition matchColon :: "string \<Rightarrow> (string option \<times> string \<times> string) option" where
  "matchColon s =
     orElse
       (case s of
          c # r \<Rightarrow> if c = CHR '':'' then matchMinute r else None
        | _ \<Rightarrow> None)
       (matchMinute s)"

text \<open>The whole pattern at the start of \<open>s\<close>.\<close>

definition matchTokenAt :: "string \<Rightarrow> tokenMatch option" where
  "matchTokenAt s =
     orElse
       (case s of
          a # b # r \<Rightarrow>
            if isDigit a \<and> isDigit b
            then map_option
                   (\<lambda>(m, p, rest). \<lparr>hourGroup = [a, b], minuteGroup = m, periodGroup = p, afterMatch = rest\<rparr>)
                   (matchColon r)
            else None
        | _ \<Rightarrow> None)
       (case s of
          a # r \<Rightarrow>
            if isDigit a
            then map_option
                   (\<lambda>(m, p, rest). \<lparr>hourGroup = [a], minuteGroup = m, periodGroup = p, afterMatch = rest\<rparr>)
                   (matchColon r)
            else None
        | _ \<Rightarrow> None)"

text \<open>The matched text: what stands before \<open>afterMatch\<close>.\<close>

definition matchedText :: "string \<Rightarrow> tokenMatch \<Rightarrow> string" where
  "matchedText s m = take (length s - length (afterMatch m)) s"

text \<open>\<^verbatim>\<open>s.match(/.../i)\<close> without the flag \<^verbatim>\<open>g\<close>: the first position, from the left,
  where the pattern matches; \<open>None\<close> is \<^verbatim>\<open>null\<close>.\<close>

fun matchFirst :: "string \<Rightarrow> tokenMatch option" where
  "matchFirst [] = None"
| "matchFirst (x # xs) =
     (case matchTokenAt (x # xs) of
        Some m \<Rightarrow> Some m
      | None \<Rightarrow> matchFirst xs)"

text \<open>
  \<^verbatim>\<open>s.match(/.../gi)\<close>: the matched texts, from the left, each search starting where the
  last match ended. The empty list is \<^verbatim>\<open>null\<close> (both fail the test
  \<^verbatim>\<open>timeMatch && timeMatch.length >= 2\<close>). \<open>skip\<close> counts the characters of the last
  match that are still to be passed over.
\<close>

fun matchAllFrom :: "nat \<Rightarrow> string \<Rightarrow> string list" where
  "matchAllFrom skip [] = []"
| "matchAllFrom (Suc k) (x # xs) = matchAllFrom k xs"
| "matchAllFrom 0 (x # xs) =
     (case matchTokenAt (x # xs) of
        Some m \<Rightarrow> matchedText (x # xs) m # matchAllFrom (length (matchedText (x # xs) m) - 1) xs
      | None \<Rightarrow> matchAllFrom 0 xs)"

definition matchAll :: "string \<Rightarrow> string list" where
  "matchAll s = matchAllFrom 0 s"

section \<open>parseTimeToMinutes\<close>

definition parseTimeToMinutes :: "string \<Rightarrow> nat" where
  "parseTimeToMinutes timeStr =
     (case matchFirst timeStr of
        None \<Rightarrow> 0
      | Some m \<Rightarrow>
          (let hours = digitsToNat (hourGroup m);
               minutes = (case minuteGroup m of Some ds \<Rightarrow> digitsToNat ds | None \<Rightarrow> 0);
               period = toUpperCase (periodGroup m);
               hours' = (if period = ''PM'' \<and> hours \<noteq> 12 then hours + 12
                         else if period = ''AM'' \<and> hours = 12 then 0
                         else hours)
           in hours' * 60 + minutes))"

section \<open>The current instant\<close>

text \<open>
  \<^verbatim>\<open>new Date()\<close> is read once by each evaluator; the three numbers read from it are
  the input of the model: \<^verbatim>\<open>getDay()\<close> (0 is Sunday, 6 is Saturday),
  \<^verbatim>\<open>getHours()\<close> (0 to 23) and \<^verbatim>\<open>getMinutes()\<close> (0 to 59).
\<close>

record instant =
  getDay :: nat
  getHours :: nat
  getMinutes :: nat

section \<open>convertTo12Hour, detectHoursFormat, formatSimpleHours\<close>

text \<open>\<^verbatim>\<open>a % 12\<close> on integers: the remainder has the sign of \<open>a\<close>.\<close>

definition rem12 :: "int \<Rightarrow> int" where
  "rem12 a = (if a < 0 then - ((- a) mod 12) else a mod 12)"

text \<open>
  \<^verbatim>\<open>const [hours, minutes] = time.split(':')\<close>: \<open>minutes\<close> is \<^verbatim>\<open>undefined\<close> when the
  string has no colon, and the template prints it as the word \<^verbatim>\<open>undefined\<close>.
  \<^verbatim>\<open>NaN >= 12\<close> is false, and \<^verbatim>\<open>NaN % 12 || 12\<close> is 12, as \<^verbatim>\<open>0 || 12\<close> is.
\<close>

definition convertTo12Hour :: "string \<Rightarrow> string" where
  "convertTo12Hour time =
     (let parts = split CHR '':'' time;
          hours = (case parts of [] \<Rightarrow> [] | h # _ \<Rightarrow> h);
          minutes = (case parts of _ # m # _ \<Rightarrow> m | _ \<Rightarrow> ''undefined'');
          hour = parseInt hours;
          ampm = (case hour of Some h \<Rightarrow> if h \<ge> 12 then ''PM'' else ''AM'' | None \<Rightarrow> ''AM'');
          displayHour = (case hour of
                           Some h \<Rightarrow> if rem12 h = 0 then 12 else rem12 h
                         | None \<Rightarrow> 12)
      in intToString displayHour @ '':'' @ minutes @ '' '' @ ampm)"

datatype HoursFormat = Simple | Complex

text \<open>\<^verbatim>\<open>:\d{2}$\<close>: what must follow the hour digits up to the end of the string.\<close>

definition simpleTail :: "string \<Rightarrow> bool" where
  "simpleTail r =
     (case r of
        [c, m1, m2] \<Rightarrow> c = CHR '':'' \<and> isDigit m1 \<and> isDigit m2
      | _ \<Rightarrow> False)"

text \<open>\<^verbatim>\<open>/^\d{1,2}:\d{2}$/.test(s)\<close>: two hour digits are tried before one.\<close>

definition simpleTimePattern :: "string \<Rightarrow> bool" where
  "simpleTimePattern s =
     ((case s of a # b # r \<Rightarrow> isDigit a \<and> isDigit b \<and> simpleTail r | _ \<Rightarrow> False)
      \<or> (case s of a # r \<Rightarrow> isDigit a \<and> simpleTail r | _ \<Rightarrow> False))"

definition detectHoursFormat :: "string \<Rightarrow> string \<Rightarrow> HoursFormat" where
  "detectHoursFormat openingHours closingHours =
     (if simpleTimePattern openingHours \<and> simpleTimePattern closingHours
      then Simple else Complex)"

definition formatSimpleHours :: "string \<Rightarrow> string \<Rightarrow> string" where
  "formatSimpleHours opening closing =
     convertTo12Hour opening @ '' - '' @ convertTo12Hour closing"

section \<open>OpenStatus and parseSimpleHours\<close>

record OpenStatus =
  isOpen :: bool
  statusText :: string
  statusColor :: string
  nextChange :: "string option"

definition currentTimeString :: "instant \<Rightarrow> string" where
  "currentTimeString now =
     padStart2 (natToString (getHours now)) @ '':'' @ padStart2 (natToString (getMinutes now))"

definition parseSimpleHours :: "instant \<Rightarrow> string \<Rightarrow> string \<Rightarrow> OpenStatus" where
  "parseSimpleHours now opening closing =
     (let currentTime = currentTimeString now;
          open = (strLessEq opening currentTime \<and> strLessEq currentTime closing);
          change = (if open then Some (''Closes at '' @ convertTo12Hour closing)
                    else if strLess currentTime opening
                         then Some (''Opens at '' @ convertTo12Hour opening)
                    else None)
      in \<lparr>isOpen = open,
          statusText = (if open then ''Open Now'' else ''Closed''),
          statusColor = (if open then ''text-green-600'' else ''text-red-600''),
          nextChange = change\<rparr>)"

section \<open>Day ranges\<close>

text \<open>
  \<^verbatim>\<open>dayMap[name]\<close>: \<open>None\<close> is \<^verbatim>\<open>undefined\<close>, the value of a name that is no key. The
  two lower-case names an object literal inherits (\<^verbatim>\<open>constructor\<close>, \<^verbatim>\<open>__proto__\<close>)
  give an object that is no number; in every comparison of \<open>isDayInRange\<close> with a day
  number it behaves as \<^verbatim>\<open>undefined\<close> does, and two such objects compared with each
  other lead to the same result \<open>False\<close>, so they are modelled as \<open>None\<close> too.
\<close>

definition dayMap :: "string \<Rightarrow> nat option" where
  "dayMap = map_of
     [(''sun'', 0), (''sunday'', 0),
      (''mon'', 1), (''monday'', 1),
      (''tue'', 2), (''tuesday'', 2),
      (''wed'', 3), (''wednesday'', 3),
      (''thu'', 4), (''thursday'', 4),
      (''fri'', 5), (''friday'', 5),
      (''sat'', 6), (''saturday'', 6)]"

text \<open>\<^verbatim>\<open>a <= b\<close> on numbers that may be \<^verbatim>\<open>undefined\<close>: false as soon as one is.\<close>

fun leqNum :: "nat option \<Rightarrow> nat option \<Rightarrow> bool" where
  "leqNum (Some a) (Some b) = (a \<le> b)"
| "leqNum _ _ = False"

definition isDayInRange :: "nat \<Rightarrow> nat option \<Rightarrow> nat option \<Rightarrow> bool" where
  "isDayInRange day start end' =
     (if leqNum start end'
      then leqNum start (Some day) \<and> leqNum (Some day) end'
      else leqNum start (Some day) \<or> leqNum (Some day) end')"

text \<open>
  The bounds of a day part (lines 342 to 351): with a hyphen the part is split at every
  hyphen and the first two pieces, trimmed, are looked up; without, the part itself.
\<close>

definition dayBounds :: "string \<Rightarrow> nat option \<times> nat option" where
  "dayBounds dayPart =
     (if includesStr dayPart ''-''
      then (case map trim (split CHR ''-'' dayPart) of
              start # end' # _ \<Rightarrow> (dayMap start, dayMap end')
            | [start] \<Rightarrow> (dayMap start, None)
            | [] \<Rightarrow> (None, None))
      else (dayMap dayPart, dayMap dayPart))"

section \<open>parseComplexHours\<close>

text \<open>
  The Daily branch (lines 310 to 313): the first two time tokens of the whole string,
  when the lower-cased string contains \<^verbatim>\<open>daily:\<close> and has two tokens.
\<close>

definition dailyTokens :: "string \<Rightarrow> (string \<times> string) option" where
  "dailyTokens hoursString =
     (if includesStr (toLowerCase hoursString) ''daily:''
      then (case matchAll hoursString of
              openStr # closeStr # _ \<Rightarrow> Some (openStr, closeStr)
            | _ \<Rightarrow> None)
      else None)"

text \<open>One time range of a clause (lines 363 to 377): the close token when the range has
  two tokens and the current time lies between them, bounds included.\<close>

definition rangeHit :: "nat \<Rightarrow> string \<Rightarrow> string option" where
  "rangeHit currentTime timeRange =
     (case matchAll timeRange of
        openStr # closeStr # _ \<Rightarrow>
          if parseTimeToMinutes openStr \<le> currentTime \<and> currentTime \<le> parseTimeToMinutes closeStr
          then Some closeStr else None
      | _ \<Rightarrow> None)"

text \<open>The loop over the time ranges of a clause (line 362).\<close>

fun firstRangeHit :: "nat \<Rightarrow> string list \<Rightarrow> string option" where
  "firstRangeHit currentTime [] = None"
| "firstRangeHit currentTime (timeRange # others) =
     (case rangeHit currentTime timeRange of
        Some closeStr \<Rightarrow> Some closeStr
      | None \<Rightarrow> firstRangeHit currentTime others)"

text \<open>A clause (lines 335 to 357): it has a day part and a time part, and the current
  day falls in the bounds of its day part. The test of the bounds against \<^verbatim>\<open>null\<close>
  always passes: a name that is no key gives \<^verbatim>\<open>undefined\<close>, never \<^verbatim>\<open>null\<close>.\<close>

definition clauseDayMatches :: "nat \<Rightarrow> string \<Rightarrow> bool" where
  "clauseDayMatches currentDay schedule =
     (case split CHR '':'' schedule of
        p # q # ps \<Rightarrow>
          (let dayPart = toLowerCase (trim p);
               (startDay, endDay) = dayBounds dayPart
           in isDayInRange currentDay startDay endDay)
      | _ \<Rightarrow> False)"

text \<open>The time ranges of a clause (lines 339 and 360).\<close>

definition timeRanges :: "string \<Rightarrow> string list" where
  "timeRanges schedule =
     (let parts = split CHR '':'' schedule;
          timePart = trim (join CHR '':'' (tl parts))
      in map trim (split CHR ''&'' timePart))"

text \<open>The body of the loop over the clauses: the close token with which the loop
  returns, or \<open>None\<close> when it goes on to the next clause.\<close>

definition clauseHit :: "nat \<Rightarrow> nat \<Rightarrow> string \<Rightarrow> string option" where
  "clauseHit currentDay currentTime schedule =
     (if clauseDayMatches currentDay schedule
      then firstRangeHit currentTime (timeRanges schedule)
      else None)"

fun firstClauseHit :: "nat \<Rightarrow> nat \<Rightarrow> string list \<Rightarrow> string option" where
  "firstClauseHit currentDay currentTime [] = None"
| "firstClauseHit currentDay currentTime (schedule # others) =
     (case clauseHit currentDay currentTime schedule of
        Some closeStr \<Rightarrow> Some closeStr
      | None \<Rightarrow> firstClauseHit currentDay currentTime others)"

definition parseComplexHours :: "instant \<Rightarrow> string \<Rightarrow> OpenStatus" where
  "parseComplexHours now hoursString =
     (let currentDay = getDay now;
          currentTime = getHours now * 60 + getMinutes now
      in case dailyTokens hoursString of
           Some (openStr, closeStr) \<Rightarrow>
             (let open = (parseTimeToMinutes openStr \<le> currentTime
                          \<and> currentTime \<le> parseTimeToMinutes closeStr)
              in \<lparr>isOpen = open,
                  statusText = (if open then ''Open Now'' else ''Closed''),
                  statusColor = (if open then ''text-green-600'' else ''text-red-600''),
                  nextChange = (if open then Some (''Closes at '' @ closeStr)
                                else Some (''Opens at '' @ openStr))\<rparr>)
         | None \<Rightarrow>
             (case firstClauseHit currentDay currentTime (map trim (split CHR '';'' hoursString)) of
                Some closeStr \<Rightarrow>
                  \<lparr>isOpen = True,
                   statusText = ''Open Now'',
                   statusColor = ''text-green-600'',
                   nextChange = Some (''Closes at '' @ closeStr)\<rparr>
              | None \<Rightarrow>
                  \<lparr>isOpen = False,
                   statusText = ''Closed'',
                   statusColor = ''text-red-600'',
                   nextChange = None\<rparr>))"

section \<open>getRestaurantStatus and formatHoursDisplay\<close>

definition getRestaurantStatus :: "instant \<Rightarrow> string \<Rightarrow> string \<Rightarrow> OpenStatus" where
  "getRestaurantStatus now openingHours closingHours =
     (case detectHoursFormat openingHours closingHours of
        Simple \<Rightarrow> parseSimpleHours now openingHours closingHours
      | Complex \<Rightarrow> parseComplexHours now openingHours)"

text \<open>\<^verbatim>\<open>format || detectHoursFormat(...)\<close>: the override is \<open>None\<close> when the argument is
  left out; both tags are non-empty strings, so a given override is always taken.\<close>

definition formatHoursDisplay :: "string \<Rightarrow> string \<Rightarrow> HoursFormat option \<Rightarrow> string" where
  "formatHoursDisplay openingHours closingHours format =
     (let detectedFormat = (case format of
                              Some f \<Rightarrow> f
                            | None \<Rightarrow> detectHoursFormat openingHours closingHours)
      in case detectedFormat of
           Simple \<Rightarrow> formatSimpleHours openingHours closingHours
         | Complex \<Rightarrow> openingHours)"

section \<open>The patterns, in the words of the specification\<close>

text \<open>
  The strict pattern of the format detector as the specification words it: a
  one-or-two digit hour, a colon, exactly two digits of minutes, and nothing else in the
  string.
\<close>

definition isSimpleTimeText :: "string \<Rightarrow> bool" where
  "isSimpleTimeText s =
     (\<exists>h m. s = h @ '':'' @ m
        \<and> (length h = 1 \<or> length h = 2) \<and> list_all isDigit h
        \<and> length m = 2 \<and> list_all isDigit m)"

text \<open>
  The time token pattern in words: a one-or-two digit hour, an optional colon, an
  optional two-digit minute, optional white space, and AM or PM in either case. The
  colon and the minutes are each optional on their own, and the white space is a run of
  any length, as in the regular expression the words describe.
\<close>

definition isPeriodText :: "string \<Rightarrow> bool" where
  "isPeriodText p = (p \<in> set [''AM'', ''Am'', ''aM'', ''am'', ''PM'', ''Pm'', ''pM'', ''pm''])"

definition isTimeToken :: "string \<Rightarrow> bool" where
  "isTimeToken tok =
     (\<exists>h c m w p. tok = h @ c @ m @ w @ p
        \<and> (length h = 1 \<or> length h = 2) \<and> list_all isDigit h
        \<and> (c = [] \<or> c = '':'')
        \<and> (m = [] \<or> (length m = 2 \<and> list_all isDigit m))
        \<and> list_all isWhiteSpace w
        \<and> isPeriodText p)"

text \<open>A text has a match when a time token stands somewhere in it.\<close>

definition containsTimeToken :: "string \<Rightarrow> bool" where
  "containsTimeToken str = (\<exists>pre tok post. str = pre @ tok @ post \<and> isTimeToken tok)"

text \<open>A time token starts at position \<open>i\<close> of a text.\<close>

definition tokenStartsAt :: "string \<Rightarrow> nat \<Rightarrow> bool" where
  "tokenStartsAt str i = (\<exists>tok rest. drop i str = tok @ rest \<and> isTimeToken tok)"

text \<open>The minute group of a token whose minute digits are \<open>m\<close>.\<close>

definition minuteOf :: "string \<Rightarrow> string option" where
  "minuteOf m = (if m = [] then None else Some m)"

text \<open>
  The bounds of a day token as the specification words them: a token with a hyphen is
  split once, at its first hyphen, and both sides are resolved; a token without a hyphen
  gives the single resolved day for both bounds. (The sides are trimmed, as the source
  trims them.)
\<close>

definition splitOnce :: "char \<Rightarrow> string \<Rightarrow> string \<times> string" where
  "splitOnce c s = (takeWhile (\<lambda>x. x \<noteq> c) s, drop 1 (dropWhile (\<lambda>x. x \<noteq> c) s))"

definition specResolveRange :: "string \<Rightarrow> nat option \<times> nat option" where
  "specResolveRange token =
     (if CHR ''-'' \<in> set token
      then (case splitOnce CHR ''-'' token of
              (start, end') \<Rightarrow> (dayMap (trim start), dayMap (trim end')))
      else (dayMap token, dayMap token))"

section \<open>Status text and colour\<close>

lemma parseSimpleHours_text_color:
  "statusText (parseSimpleHours now a b)
     = (if isOpen (parseSimpleHours now a b) then ''Open Now'' else ''Closed'')
   \<and> statusColor (parseSimpleHours now a b)
     = (if isOpen (parseSimpleHours now a b) then ''text-green-600'' else ''text-red-600'')"
  by (simp add: parseSimpleHours_def Let_def)

lemma parseComplexHours_text_color:
  "statusText (parseComplexHours now a)
     = (if isOpen (parseComplexHours now a) then ''Open Now'' else ''Closed'')
   \<and> statusColor (parseComplexHours now a)
     = (if isOpen (parseComplexHours now a) then ''text-green-600'' else ''text-red-600'')"
  by (simp add: parseComplexHours_def Let_def split: option.splits prod.splits)

text \<open>
  Claim C8. For every pair of input strings and every current instant, the status that
  \<open>getRestaurantStatus\<close> returns, whichever of the Simple, the Daily and the
  day-qualified path produced it, has the text \<^verbatim>\<open>Open Now\<close> and the colour
  \<^verbatim>\<open>text-green-600\<close> when \<open>isOpen\<close> is true, and the text \<^verbatim>\<open>Closed\<close> and the colour
  \<^verbatim>\<open>text-red-600\<close> when it is false; no other text or colour is produced.
\<close>

theorem status_text_and_color:
  "statusText (getRestaurantStatus now a b)
     = (if isOpen (getRestaurantStatus now a b) then ''Open Now'' else ''Closed'')
   \<and> statusColor (getRestaurantStatus now a b)
     = (if isOpen (getRestaurantStatus now a b) then ''text-green-600'' else ''text-red-600'')"
  using parseSimpleHours_text_color [of now a b] parseComplexHours_text_color [of now a]
  by (cases "detectHoursFormat a b") (simp_all add: getRestaurantStatus_def)

section \<open>The display string\<close>

text \<open>
  Claim C9. For all strings \<open>opening\<close> and \<open>closing\<close>, \<open>formatHoursDisplay\<close> called
  with the format that \<open>detectHoursFormat\<close> finds for them gives the same string as
  \<open>formatHoursDisplay\<close> called without a format.
\<close>

theorem formatHoursDisplay_detected_format:
  "formatHoursDisplay opening closing (Some (detectHoursFormat opening closing))
     = formatHoursDisplay opening closing None"
  by (simp add: formatHoursDisplay_def)

section \<open>Days in a range\<close>

text \<open>
  Claim C5. For day numbers \<open>day\<close>, \<open>start\<close> and \<open>end\<close>: when \<open>start \<le> end\<close> the range
  contains \<open>day\<close> exactly when \<open>start \<le> day \<le> end\<close>; when \<open>start > end\<close> the range
  wraps the week and contains \<open>day\<close> exactly when \<open>day \<ge> start\<close> or \<open>day \<le> end\<close>. The
  descriptor \<^verbatim>\<open>Fri-Sun: 11AM-10PM\<close> is open at 7 PM on Friday, Saturday and Sunday and
  closed at 7 PM on Monday. (The bounds 0 to 6 of the claim are not needed.)
\<close>

theorem isDayInRange_week_wrap:
  "(start \<le> end' \<longrightarrow>
      isDayInRange day (Some start) (Some end') = (start \<le> day \<and> day \<le> end'))
   \<and> (end' < start \<longrightarrow>
      isDayInRange day (Some start) (Some end') = (start \<le> day \<or> day \<le> end'))
   \<and> isOpen (getRestaurantStatus \<lparr>getDay = 5, getHours = 19, getMinutes = 0\<rparr> ''Fri-Sun: 11AM-10PM'' '''')
   \<and> isOpen (getRestaurantStatus \<lparr>getDay = 6, getHours = 19, getMinutes = 0\<rparr> ''Fri-Sun: 11AM-10PM'' '''')
   \<and> isOpen (getRestaurantStatus \<lparr>getDay = 0, getHours = 19, getMinutes = 0\<rparr> ''Fri-Sun: 11AM-10PM'' '''')
   \<and> \<not> isOpen (getRestaurantStatus \<lparr>getDay = 1, getHours = 19, getMinutes = 0\<rparr> ''Fri-Sun: 11AM-10PM'' '''')"
proof -
  have range: "start \<le> end' \<longrightarrow>
      isDayInRange day (Some start) (Some end') = (start \<le> day \<and> day \<le> end')"
    by (simp add: isDayInRange_def)
  have wrap: "end' < start \<longrightarrow>
      isDayInRange day (Some start) (Some end') = (start \<le> day \<or> day \<le> end')"
    by (simp add: isDayInRange_def)
  have fri: "isOpen (getRestaurantStatus \<lparr>getDay = 5, getHours = 19, getMinutes = 0\<rparr> ''Fri-Sun: 11AM-10PM'' '''')"
    by code_simp
  have sat: "isOpen (getRestaurantStatus \<lparr>getDay = 6, getHours = 19, getMinutes = 0\<rparr> ''Fri-Sun: 11AM-10PM'' '''')"
    by code_simp
  have sun: "isOpen (getRestaurantStatus \<lparr>getDay = 0, getHours = 19, getMinutes = 0\<rparr> ''Fri-Sun: 11AM-10PM'' '''')"
    by code_simp
  have mon: "\<not> isOpen (getRestaurantStatus \<lparr>getDay = 1, getHours = 19, getMinutes = 0\<rparr> ''Fri-Sun: 11AM-10PM'' '''')"
    by code_simp
  from range wrap fri sat sun mon show ?thesis by blast
qed

theorem isDayInRange_week_wrap_witness:
  "(1::nat) \<le> 4 \<and> isDayInRange 2 (Some 1) (Some 4)
   \<and> (0::nat) < 5 \<and> isDayInRange 6 (Some 5) (Some 0) \<and> \<not> isDayInRange 3 (Some 5) (Some 0)"
  using isDayInRange_week_wrap [of 1 4 2] isDayInRange_week_wrap [of 5 0 6]
    isDayInRange_week_wrap [of 5 0 3]
  by simp

section \<open>The order of strings\<close>

lemma strLess_irrefl: "\<not> strLess a a"
  by (induction a) auto

lemma strLess_asym: "strLess a b \<Longrightarrow> \<not> strLess b a"
  by (induction a b rule: strLess.induct) auto

lemma strLess_not_leq: "strLess a b \<Longrightarrow> \<not> strLessEq b a"
  using strLess_asym [of a b] strLess_irrefl [of a] by (auto simp: strLessEq_def)

lemma strLessEq_not_less: "strLessEq a b \<Longrightarrow> \<not> strLess b a"
  using strLess_not_leq by blast

lemma strLess_total: "strLess a b \<or> a = b \<or> strLess b a"
proof (induction a b rule: strLess.induct)
  case (4 x xs y ys)
  have "(of_char x :: nat) < of_char y \<or> (of_char y :: nat) < of_char x \<or> x = y"
    by (metis linorder_neqE_nat of_char_eq_iff)
  with 4 show ?case by auto
qed auto

lemma strLessEq_refl: "strLessEq a a"
  by (simp add: strLessEq_def)

lemma not_strLess: "\<not> strLess a b \<Longrightarrow> strLessEq b a"
  using strLess_total [of a b] by (auto simp: strLessEq_def)

lemma not_strLessEq: "\<not> strLessEq a b \<Longrightarrow> strLess b a"
  using strLess_total [of a b] by (auto simp: strLessEq_def)

section \<open>The format detector\<close>

lemma length_1_conv: "length h = Suc 0 \<longleftrightarrow> (\<exists>a. h = [a])"
  by (cases h) auto

lemma length_2_conv: "length h = 2 \<longleftrightarrow> (\<exists>a b. h = [a, b])"
proof
  assume "length h = 2"
  then show "\<exists>a b. h = [a, b]"
    by (cases h; cases "tl h") auto
qed auto

lemma colon_not_digit: "\<not> isDigit CHR '':''"
  by (simp add: isDigit_def)

lemma simpleTail_iff:
  "simpleTail r \<longleftrightarrow> (\<exists>m1 m2. r = [CHR '':'', m1, m2] \<and> isDigit m1 \<and> isDigit m2)"
  by (auto simp: simpleTail_def split: list.splits)

lemma simpleTimePattern_iff:
  "simpleTimePattern s \<longleftrightarrow>
     (\<exists>a m1 m2. s = [a, CHR '':'', m1, m2] \<and> isDigit a \<and> isDigit m1 \<and> isDigit m2)
     \<or> (\<exists>a b m1 m2. s = [a, b, CHR '':'', m1, m2] \<and> isDigit a \<and> isDigit b \<and> isDigit m1 \<and> isDigit m2)"
  unfolding simpleTimePattern_def simpleTail_iff
  by (auto simp: colon_not_digit split: list.splits)

lemma isSimpleTimeText_iff:
  "isSimpleTimeText s \<longleftrightarrow>
     (\<exists>a m1 m2. s = [a, CHR '':'', m1, m2] \<and> isDigit a \<and> isDigit m1 \<and> isDigit m2)
     \<or> (\<exists>a b m1 m2. s = [a, b, CHR '':'', m1, m2] \<and> isDigit a \<and> isDigit b \<and> isDigit m1 \<and> isDigit m2)"
  (is "?L \<longleftrightarrow> ?A \<or> ?B")
proof
  assume ?L
  then obtain h m where s: "s = h @ '':'' @ m" and lh: "length h = 1 \<or> length h = 2"
    and dh: "list_all isDigit h" and lm: "length m = 2" and dm: "list_all isDigit m"
    unfolding isSimpleTimeText_def by blast
  from lm obtain m1 m2 where m: "m = [m1, m2]" by (auto simp: length_2_conv)
  from lh show "?A \<or> ?B"
  proof
    assume "length h = 1"
    then obtain a where "h = [a]" by (auto simp: length_1_conv)
    with s m dh dm show ?thesis by simp
  next
    assume "length h = 2"
    then obtain a b where "h = [a, b]" by (auto simp: length_2_conv)
    with s m dh dm show ?thesis by simp
  qed
next
  assume "?A \<or> ?B"
  then show ?L
  proof
    assume ?A
    then obtain a m1 m2 where "s = [a] @ '':'' @ [m1, m2]" "isDigit a" "isDigit m1" "isDigit m2"
      by auto
    then show ?L unfolding isSimpleTimeText_def
      by (intro exI [of _ "[a]"] exI [of _ "[m1, m2]"]) simp
  next
    assume ?B
    then obtain a b m1 m2 where "s = [a, b] @ '':'' @ [m1, m2]" "isDigit a" "isDigit b" "isDigit m1" "isDigit m2"
      by auto
    then show ?L unfolding isSimpleTimeText_def
      by (intro exI [of _ "[a, b]"] exI [of _ "[m1, m2]"]) simp
  qed
qed

lemma simpleTimePattern_spec: "simpleTimePattern s \<longleftrightarrow> isSimpleTimeText s"
  by (simp only: simpleTimePattern_iff isSimpleTimeText_iff)

text \<open>
  Claim C7. For every pair of strings, \<open>detectHoursFormat\<close> returns \<open>Simple\<close> exactly
  when both strings, in their entirety, are a one-or-two digit hour, a colon and exactly
  two digits of minutes; any deviation in either string (text around it, day names, a
  missing colon, an empty closing string) gives \<open>Complex\<close>. The check is syntactic: an
  hour 99 is accepted.
\<close>

theorem detectHoursFormat_simple_iff:
  "(detectHoursFormat opening closing = Simple
      \<longleftrightarrow> isSimpleTimeText opening \<and> isSimpleTimeText closing)
   \<and> (detectHoursFormat opening closing = Complex
      \<longleftrightarrow> \<not> (isSimpleTimeText opening \<and> isSimpleTimeText closing))
   \<and> detectHoursFormat ''11:00'' ''22:00'' = Simple
   \<and> detectHoursFormat ''99:99'' ''9:00'' = Simple
   \<and> detectHoursFormat ''Daily: 11:00AM-10:00PM'' '''' = Complex
   \<and> detectHoursFormat ''11:00'' '''' = Complex
   \<and> detectHoursFormat ''1100'' ''22:00'' = Complex
   \<and> detectHoursFormat ''11:00 '' ''22:00'' = Complex
   \<and> detectHoursFormat ''Mon 11:00'' ''22:00'' = Complex"
proof -
  have general: "detectHoursFormat opening closing = Simple
      \<longleftrightarrow> isSimpleTimeText opening \<and> isSimpleTimeText closing"
    by (simp add: detectHoursFormat_def simpleTimePattern_spec)
  have other: "detectHoursFormat opening closing = Complex
      \<longleftrightarrow> \<not> (isSimpleTimeText opening \<and> isSimpleTimeText closing)"
    by (simp add: detectHoursFormat_def simpleTimePattern_spec)
  have e1: "detectHoursFormat ''11:00'' ''22:00'' = Simple" by code_simp
  have e2: "detectHoursFormat ''99:99'' ''9:00'' = Simple" by code_simp
  have e3: "detectHoursFormat ''Daily: 11:00AM-10:00PM'' '''' = Complex" by code_simp
  have e4: "detectHoursFormat ''11:00'' '''' = Complex" by code_simp
  have e5: "detectHoursFormat ''1100'' ''22:00'' = Complex" by code_simp
  have e6: "detectHoursFormat ''11:00 '' ''22:00'' = Complex" by code_simp
  have e7: "detectHoursFormat ''Mon 11:00'' ''22:00'' = Complex" by code_simp
  from general other e1 e2 e3 e4 e5 e6 e7 show ?thesis by blast
qed

section \<open>The time token parser\<close>

subsection \<open>Every token is matched, with the groups it is built from\<close>

lemma digit_not_space: "isDigit c \<Longrightarrow> \<not> isWhiteSpace c"
  by (auto simp: isDigit_def isWhiteSpace_def)

lemma digit_not_colon: "isDigit c \<Longrightarrow> c \<noteq> CHR '':''"
  by (auto simp: isDigit_def)

lemma space_not_digit: "isWhiteSpace c \<Longrightarrow> \<not> isDigit c"
  by (auto simp: isDigit_def isWhiteSpace_def)

lemma space_not_colon: "isWhiteSpace c \<Longrightarrow> c \<noteq> CHR '':''"
  by (auto simp: isWhiteSpace_def)

lemma period_shape:
  "isPeriodText p \<Longrightarrow> \<exists>a b. p = [a, b] \<and> \<not> isWhiteSpace a \<and> \<not> isDigit a \<and> a \<noteq> CHR '':''
      \<and> matchPeriod (a # b # post) = Some ([a, b], post)"
  by (auto simp: isPeriodText_def isWhiteSpace_def isDigit_def)

lemma matchPeriod_digit: "isDigit a \<Longrightarrow> matchPeriod (a # r) = None"
  by (cases r) (auto simp: isDigit_def)

lemma dropWhile_spaces:
  "list_all isWhiteSpace w \<Longrightarrow> \<not> isWhiteSpace a \<Longrightarrow> dropWhile isWhiteSpace (w @ a # r) = a # r"
  by (induction w) auto

lemma matchSpacePeriod_token:
  assumes "list_all isWhiteSpace w" "isPeriodText p"
  shows "matchSpacePeriod (w @ p @ post) = Some (p, post)"
proof -
  from period_shape [OF assms(2), of post] obtain a b where
    p: "p = [a, b]" and a: "\<not> isWhiteSpace a" and m: "matchPeriod (a # b # post) = Some ([a, b], post)"
    by blast
  from dropWhile_spaces [OF assms(1) a, of "b # post"] p m show ?thesis
    by (simp add: matchSpacePeriod_def)
qed

lemma matchSpacePeriod_digit: "isDigit a \<Longrightarrow> matchSpacePeriod (a # r) = None"
  by (simp add: matchSpacePeriod_def digit_not_space matchPeriod_digit)

text \<open>The head of what follows the minutes is white space or the first letter of the period.\<close>

lemma after_minutes_head:
  assumes "list_all isWhiteSpace w" "isPeriodText p"
  shows "\<exists>x r. w @ p @ post = x # r \<and> \<not> isDigit x \<and> x \<noteq> CHR '':''"
proof (cases w)
  case Nil
  with period_shape [OF assms(2), of post] show ?thesis by auto
next
  case (Cons x w')
  with assms(1) show ?thesis by (auto simp: space_not_digit space_not_colon)
qed

lemma matchMinute_none:
  assumes "list_all isWhiteSpace w" "isPeriodText p"
  shows "matchMinute (w @ p @ post) = Some (None, p, post)"
proof -
  from after_minutes_head [OF assms, of post] obtain x r where
    xr: "w @ p @ post = x # r" and x: "\<not> isDigit x" by blast
  have "matchMinute (x # r) = map_option (\<lambda>(p, rest). (None, p, rest)) (matchSpacePeriod (x # r))"
    using x by (cases r) (simp_all add: matchMinute_def)
  with xr matchSpacePeriod_token [OF assms, of post] show ?thesis by simp
qed

lemma matchMinute_some:
  assumes "list_all isWhiteSpace w" "isPeriodText p" "isDigit m1" "isDigit m2"
  shows "matchMinute (m1 # m2 # w @ p @ post) = Some (Some [m1, m2], p, post)"
  using assms matchSpacePeriod_token [OF assms(1,2), of post]
  by (simp add: matchMinute_def)

lemma matchMinute_token:
  assumes "list_all isWhiteSpace w" "isPeriodText p"
    and "m = [] \<or> (length m = 2 \<and> list_all isDigit m)"
  shows "matchMinute (m @ w @ p @ post) = Some (minuteOf m, p, post)"
proof (cases "m = []")
  case True
  then show ?thesis using matchMinute_none [OF assms(1,2), of post] by (simp add: minuteOf_def)
next
  case False
  with assms(3) obtain m1 m2 where "m = [m1, m2]" "isDigit m1" "isDigit m2"
    by (auto simp: length_2_conv)
  then show ?thesis using matchMinute_some [OF assms(1,2), of m1 m2 post] by (simp add: minuteOf_def)
qed

lemma after_colon_head:
  assumes "list_all isWhiteSpace w" "isPeriodText p"
    and "m = [] \<or> (length m = 2 \<and> list_all isDigit m)"
  shows "\<exists>x r. m @ w @ p @ post = x # r \<and> x \<noteq> CHR '':''"
proof (cases "m = []")
  case True
  with after_minutes_head [OF assms(1,2), of post] show ?thesis by auto
next
  case False
  with assms(3) obtain m1 m2 where "m = [m1, m2]" "isDigit m1" by (auto simp: length_2_conv)
  then show ?thesis by (auto simp: digit_not_colon)
qed

lemma matchColon_token:
  assumes "list_all isWhiteSpace w" "isPeriodText p"
    and "m = [] \<or> (length m = 2 \<and> list_all isDigit m)"
    and "c = [] \<or> c = '':''"
  shows "matchColon (c @ m @ w @ p @ post) = Some (minuteOf m, p, post)"
proof (cases "c = []")
  case True
  from after_colon_head [OF assms(1-3), of post] obtain x r where
    xr: "m @ w @ p @ post = x # r" and x: "x \<noteq> CHR '':''" by blast
  have "matchColon (x # r) = matchMinute (x # r)" using x by (simp add: matchColon_def)
  with xr True matchMinute_token [OF assms(1-3), of post] show ?thesis by simp
next
  case False
  with assms(4) have "c = '':''" by simp
  then show ?thesis using matchMinute_token [OF assms(1-3), of post] by (simp add: matchColon_def)
qed

text \<open>One hour digit followed by a digit: the attempt with two hour digits fails, since
  what then follows the lone minute digit is white space or a letter.\<close>

lemma matchColon_lone_digit:
  assumes "list_all isWhiteSpace w" "isPeriodText p" "isDigit d"
  shows "matchColon (d # w @ p @ post) = None"
proof -
  from after_minutes_head [OF assms(1,2), of post] obtain x r where
    xr: "w @ p @ post = x # r" and x: "\<not> isDigit x" by blast
  have "matchMinute (d # x # r) = None"
    using x assms(3) by (simp add: matchMinute_def matchSpacePeriod_digit)
  then have "matchColon (d # x # r) = None"
    using assms(3) by (simp add: matchColon_def digit_not_colon)
  with xr show ?thesis by simp
qed

lemma matchTokenAt_token:
  assumes h: "length h = 1 \<or> length h = 2" "list_all isDigit h"
    and c: "c = [] \<or> c = '':''"
    and m: "m = [] \<or> (length m = 2 \<and> list_all isDigit m)"
    and w: "list_all isWhiteSpace w"
    and p: "isPeriodText p"
  shows "matchTokenAt (h @ c @ m @ w @ p @ post)
           = Some \<lparr>hourGroup = h, minuteGroup = minuteOf m, periodGroup = p, afterMatch = post\<rparr>"
proof -
  note mc = matchColon_token [OF w p m c, of post]
  from h(1) show ?thesis
  proof
    assume "length h = 2"
    then obtain a b where ab: "h = [a, b]" by (auto simp: length_2_conv)
    with h(2) have "isDigit a" "isDigit b" by simp_all
    with ab mc show ?thesis by (simp add: matchTokenAt_def)
  next
    assume "length h = 1"
    then obtain a where a: "h = [a]" by (auto simp: length_1_conv)
    with h(2) have da: "isDigit a" by simp
    have second: "(case a # c @ m @ w @ p @ post of
          a # r \<Rightarrow> if isDigit a
            then map_option (\<lambda>(m, p, rest). \<lparr>hourGroup = [a], minuteGroup = m, periodGroup = p, afterMatch = rest\<rparr>) (matchColon r)
            else None
        | _ \<Rightarrow> None) = Some \<lparr>hourGroup = [a], minuteGroup = minuteOf m, periodGroup = p, afterMatch = post\<rparr>"
      using da mc by simp
    have first: "(case a # c @ m @ w @ p @ post of
          a # b # r \<Rightarrow> if isDigit a \<and> isDigit b
            then map_option (\<lambda>(m, p, rest). \<lparr>hourGroup = [a, b], minuteGroup = m, periodGroup = p, afterMatch = rest\<rparr>) (matchColon r)
            else None
        | _ \<Rightarrow> None) = None"
    proof (cases "c = []")
      case False
      with c have "c = '':''" by simp
      then show ?thesis by (simp add: isDigit_def)
    next
      case True
      show ?thesis
      proof (cases "m = []")
        case True
        from after_minutes_head [OF w p, of post] obtain x r where
          "w @ p @ post = x # r" "\<not> isDigit x" by blast
        with True \<open>c = []\<close> show ?thesis by simp
      next
        case False
        with m obtain m1 m2 where mm: "m = [m1, m2]" "isDigit m2" by (auto simp: length_2_conv)
        from matchColon_lone_digit [OF w p mm(2), of post] mm(1) \<open>c = []\<close> show ?thesis by simp
      qed
    qed
    from first second a show ?thesis by (simp add: matchTokenAt_def)
  qed
qed

subsection \<open>Every match is a token\<close>

lemma matchPeriod_sound:
  "matchPeriod s = Some (p, rest) \<Longrightarrow> s = p @ rest \<and> isPeriodText p"
proof (cases s)
  case Nil
  assume "matchPeriod s = Some (p, rest)"
  with Nil show ?thesis by simp
next
  case (Cons a s')
  assume m: "matchPeriod s = Some (p, rest)"
  show ?thesis
  proof (cases s')
    case Nil
    with Cons m show ?thesis by simp
  next
    case (Cons b r)
    with \<open>s = a # s'\<close> m show ?thesis
      by (auto simp: isPeriodText_def split: if_splits)
  qed
qed

lemma matchSpacePeriod_sound:
  assumes "matchSpacePeriod s = Some (p, rest)"
  shows "\<exists>w. s = w @ p @ rest \<and> list_all isWhiteSpace w \<and> isPeriodText p"
proof -
  from assms have "dropWhile isWhiteSpace s = p @ rest \<and> isPeriodText p"
    by (simp add: matchSpacePeriod_def matchPeriod_sound)
  moreover have "s = takeWhile isWhiteSpace s @ dropWhile isWhiteSpace s" by simp
  moreover have "list_all isWhiteSpace (takeWhile isWhiteSpace s)"
    by (simp add: list_all_iff) (meson set_takeWhileD)
  ultimately show ?thesis by metis
qed

lemma matchMinute_sound:
  assumes "matchMinute s = Some (mo, p, rest)"
  shows "\<exists>m w. s = m @ w @ p @ rest \<and> (m = [] \<or> (length m = 2 \<and> list_all isDigit m))
           \<and> list_all isWhiteSpace w \<and> isPeriodText p"
proof -
  let ?first = "(case s of
          a # b # r \<Rightarrow>
            if isDigit a \<and> isDigit b
            then map_option (\<lambda>(p, rest). (Some [a, b], p, rest)) (matchSpacePeriod r)
            else None
        | _ \<Rightarrow> None)"
  show ?thesis
  proof (cases ?first)
    case None
    with assms have "map_option (\<lambda>(p, rest). (None :: string option, p, rest)) (matchSpacePeriod s) = Some (mo, p, rest)"
      by (simp add: matchMinute_def)
    then have "matchSpacePeriod s = Some (p, rest)" by (auto split: prod.splits)
    from matchSpacePeriod_sound [OF this] obtain w where
      "s = [] @ w @ p @ rest" "list_all isWhiteSpace w" "isPeriodText p" by auto
    then show ?thesis by blast
  next
    case (Some x)
    then obtain a b r where s: "s = a # b # r" and d: "isDigit a" "isDigit b"
      and sp: "map_option (\<lambda>(p, rest). (Some [a, b], p, rest)) (matchSpacePeriod r) = Some x"
      by (auto split: list.splits if_splits)
    from Some assms have "x = (mo, p, rest)" by (simp add: matchMinute_def)
    with sp have "matchSpacePeriod r = Some (p, rest)" by (auto split: prod.splits)
    from matchSpacePeriod_sound [OF this] obtain w where
      "r = w @ p @ rest" "list_all isWhiteSpace w" "isPeriodText p" by auto
    with s d have "s = [a, b] @ w @ p @ rest \<and> (length [a, b] = 2 \<and> list_all isDigit [a, b])
        \<and> list_all isWhiteSpace w \<and> isPeriodText p" by simp
    then show ?thesis by blast
  qed
qed

lemma matchColon_sound:
  assumes "matchColon s = Some (mo, p, rest)"
  shows "\<exists>c m w. s = c @ m @ w @ p @ rest \<and> (c = [] \<or> c = '':'')
           \<and> (m = [] \<or> (length m = 2 \<and> list_all isDigit m))
           \<and> list_all isWhiteSpace w \<and> isPeriodText p"
proof -
  let ?first = "(case s of
          c # r \<Rightarrow> if c = CHR '':'' then matchMinute r else None
        | _ \<Rightarrow> None)"
  show ?thesis
  proof (cases ?first)
    case None
    with assms have "matchMinute s = Some (mo, p, rest)" by (simp add: matchColon_def)
    from matchMinute_sound [OF this] obtain m w where
      "s = [] @ m @ w @ p @ rest" "m = [] \<or> (length m = 2 \<and> list_all isDigit m)"
      "list_all isWhiteSpace w" "isPeriodText p" by auto
    then show ?thesis by blast
  next
    case (Some x)
    then obtain r where s: "s = CHR '':'' # r" and mm: "matchMinute r = Some x"
      by (auto split: list.splits if_splits)
    from Some assms have "x = (mo, p, rest)" by (simp add: matchColon_def)
    with mm have "matchMinute r = Some (mo, p, rest)" by simp
    from matchMinute_sound [OF this] obtain m w where
      "r = m @ w @ p @ rest" "m = [] \<or> (length m = 2 \<and> list_all isDigit m)"
      "list_all isWhiteSpace w" "isPeriodText p" by auto
    with s have "s = '':'' @ m @ w @ p @ rest \<and> (m = [] \<or> (length m = 2 \<and> list_all isDigit m))
      \<and> list_all isWhiteSpace w \<and> isPeriodText p" by simp
    then show ?thesis by blast
  qed
qed

lemma token_intro:
  assumes "s = h @ c @ m @ w @ p @ rest" "length h = 1 \<or> length h = 2" "list_all isDigit h"
    "c = [] \<or> c = '':''" "m = [] \<or> (length m = 2 \<and> list_all isDigit m)"
    "list_all isWhiteSpace w" "isPeriodText p"
  shows "\<exists>tok. s = tok @ rest \<and> isTimeToken tok"
proof -
  have "isTimeToken (h @ c @ m @ w @ p)"
    unfolding isTimeToken_def using assms(2-) by blast
  with assms(1) show ?thesis by (intro exI [of _ "h @ c @ m @ w @ p"]) simp
qed

lemma matchTokenAt_sound:
  assumes "matchTokenAt s = Some r"
  shows "\<exists>tok. s = tok @ afterMatch r \<and> isTimeToken tok"
proof -
  let ?first = "(case s of
          a # b # r \<Rightarrow>
            if isDigit a \<and> isDigit b
            then map_option
                   (\<lambda>(m, p, rest). \<lparr>hourGroup = [a, b], minuteGroup = m, periodGroup = p, afterMatch = rest\<rparr>)
                   (matchColon r)
            else None
        | _ \<Rightarrow> None)"
  let ?second = "(case s of
          a # r \<Rightarrow>
            if isDigit a
            then map_option
                   (\<lambda>(m, p, rest). \<lparr>hourGroup = [a], minuteGroup = m, periodGroup = p, afterMatch = rest\<rparr>)
                   (matchColon r)
            else None
        | _ \<Rightarrow> None)"
  show ?thesis
  proof (cases ?first)
    case (Some x)
    with assms have x: "x = r" by (simp add: matchTokenAt_def)
    from Some obtain a b t mo p rest where s: "s = a # b # t" and d: "isDigit a" "isDigit b"
      and mc: "matchColon t = Some (mo, p, rest)"
      and xr: "x = \<lparr>hourGroup = [a, b], minuteGroup = mo, periodGroup = p, afterMatch = rest\<rparr>"
      by (auto split: list.splits if_splits)
    from matchColon_sound [OF mc] obtain c m w where
      t: "t = c @ m @ w @ p @ rest" and rest: "c = [] \<or> c = '':''"
      "m = [] \<or> (length m = 2 \<and> list_all isDigit m)" "list_all isWhiteSpace w" "isPeriodText p"
      by blast
    from s t have "s = [a, b] @ c @ m @ w @ p @ rest" by simp
    moreover from x xr have "afterMatch r = rest" by auto
    ultimately show ?thesis using token_intro [OF _ _ _ rest, of s "[a, b]"] d by simp
  next
    case None
    with assms have sec: "?second = Some r" by (simp add: matchTokenAt_def)
    then obtain a t mo p rest where s: "s = a # t" and d: "isDigit a"
      and mc: "matchColon t = Some (mo, p, rest)"
      and xr: "r = \<lparr>hourGroup = [a], minuteGroup = mo, periodGroup = p, afterMatch = rest\<rparr>"
      by (auto split: list.splits if_splits)
    from matchColon_sound [OF mc] obtain c m w where
      t: "t = c @ m @ w @ p @ rest" and rest: "c = [] \<or> c = '':''"
      "m = [] \<or> (length m = 2 \<and> list_all isDigit m)" "list_all isWhiteSpace w" "isPeriodText p"
      by blast
    from s t have "s = [a] @ c @ m @ w @ p @ rest" by simp
    moreover from xr have "afterMatch r = rest" by simp
    ultimately show ?thesis using token_intro [OF _ _ _ rest, of s "[a]"] d by simp
  qed
qed

lemma matchFirst_sound: "matchFirst str = Some r \<Longrightarrow> containsTimeToken str"
proof (induction str)
  case Nil
  then show ?case by simp
next
  case (Cons x xs)
  show ?case
  proof (cases "matchTokenAt (x # xs)")
    case (Some r')
    from matchTokenAt_sound [OF this] obtain tok where
      "x # xs = [] @ tok @ afterMatch r'" "isTimeToken tok" by auto
    then show ?thesis unfolding containsTimeToken_def by blast
  next
    case None
    with Cons.prems have "matchFirst xs = Some r" by simp
    from Cons.IH [OF this] obtain pre tok post where
      "xs = pre @ tok @ post" "isTimeToken tok" unfolding containsTimeToken_def by blast
    then have "x # xs = (x # pre) @ tok @ post \<and> isTimeToken tok" by simp
    then show ?thesis unfolding containsTimeToken_def by blast
  qed
qed

lemma matchFirst_none:
  "\<not> containsTimeToken str \<Longrightarrow> matchFirst str = None"
  using matchFirst_sound [of str] by (cases "matchFirst str") auto

subsection \<open>The minutes of a token\<close>

lemma matchFirst_token:
  assumes h: "length h = 1 \<or> length h = 2" "list_all isDigit h"
    and c: "c = [] \<or> c = '':''"
    and m: "m = [] \<or> (length m = 2 \<and> list_all isDigit m)"
    and w: "list_all isWhiteSpace w"
    and p: "isPeriodText p"
  shows "matchFirst (h @ c @ m @ w @ p @ post)
           = Some \<lparr>hourGroup = h, minuteGroup = minuteOf m, periodGroup = p, afterMatch = post\<rparr>"
proof -
  from h(1) obtain x xs where "h = x # xs" by (cases h) auto
  then have "matchFirst (h @ c @ m @ w @ p @ post)
      = (case matchTokenAt (h @ c @ m @ w @ p @ post) of Some r \<Rightarrow> Some r
         | None \<Rightarrow> matchFirst (xs @ c @ m @ w @ p @ post))"
    by simp
  also have "\<dots> = Some \<lparr>hourGroup = h, minuteGroup = minuteOf m, periodGroup = p, afterMatch = post\<rparr>"
    by (simp add: matchTokenAt_token [OF h c m w p, of post])
  finally show ?thesis .
qed

lemma toUpperChar_period:
  "toUpperChar CHR ''a'' = CHR ''A''" "toUpperChar CHR ''A'' = CHR ''A''"
  "toUpperChar CHR ''p'' = CHR ''P''" "toUpperChar CHR ''P'' = CHR ''P''"
  "toUpperChar CHR ''m'' = CHR ''M''" "toUpperChar CHR ''M'' = CHR ''M''"
  by code_simp+

lemma period_upper:
  "isPeriodText p \<Longrightarrow> toUpperCase p = ''AM'' \<or> toUpperCase p = ''PM''"
  by (auto simp: isPeriodText_def toUpperCase_def toUpperChar_period)

lemma token_has_digit: "isTimeToken tok \<Longrightarrow> \<exists>d \<in> set tok. isDigit d"
proof -
  assume "isTimeToken tok"
  then obtain h c m w p where tok: "tok = h @ c @ m @ w @ p"
    and h: "length h = 1 \<or> length h = 2" "list_all isDigit h"
    unfolding isTimeToken_def by blast
  from h(1) obtain x xs where "h = x # xs" by (cases h) auto
  with h(2) tok show ?thesis by auto
qed

lemma no_digit_no_token:
  assumes "\<not> (\<exists>d \<in> set str. isDigit d)"
  shows "\<not> containsTimeToken str"
proof
  assume "containsTimeToken str"
  then obtain pre tok post where t: "str = pre @ tok @ post" and k: "isTimeToken tok"
    unfolding containsTimeToken_def by blast
  from token_has_digit [OF k] t assms show False by auto
qed

lemma parseTimeToMinutes_of_token:
  assumes h: "length h = 1 \<or> length h = 2" "list_all isDigit h"
      and c: "c = [] \<or> c = '':''"
      and m: "m = [] \<or> (length m = 2 \<and> list_all isDigit m)"
      and w: "list_all isWhiteSpace w"
      and p: "isPeriodText p"
  shows "parseTimeToMinutes (h @ c @ m @ w @ p @ post)
          = (if toUpperCase p = ''PM''
             then (if digitsToNat h = 12 then 12 else digitsToNat h + 12)
             else (if digitsToNat h = 12 then 0 else digitsToNat h)) * 60
            + (if m = [] then 0 else digitsToNat m)"
proof -
  note mf = matchFirst_token [OF h c m w p, of post]
  from period_upper [OF p] show ?thesis
  proof
    assume "toUpperCase p = ''AM''"
    with mf show ?thesis by (simp add: parseTimeToMinutes_def minuteOf_def Let_def)
  next
    assume "toUpperCase p = ''PM''"
    with mf show ?thesis by (simp add: parseTimeToMinutes_def minuteOf_def Let_def)
  qed
qed

subsection \<open>The first token of a text\<close>

lemma matchTokenAt_complete:
  assumes "tokenStartsAt s i"
  shows "matchTokenAt (drop i s) \<noteq> None"
proof -
  from assms obtain tok rest where d: "drop i s = tok @ rest" and "isTimeToken tok"
    unfolding tokenStartsAt_def by blast
  then obtain h c m w p where tok: "tok = h @ c @ m @ w @ p"
    and h: "length h = 1 \<or> length h = 2" "list_all isDigit h"
    and c: "c = [] \<or> c = '':''"
    and m: "m = [] \<or> (length m = 2 \<and> list_all isDigit m)"
    and w: "list_all isWhiteSpace w"
    and p: "isPeriodText p"
    unfolding isTimeToken_def by blast
  from matchTokenAt_token [OF h c m w p, of rest] d tok show ?thesis by simp
qed

lemma tokenStartsAt_iff: "tokenStartsAt s i \<longleftrightarrow> matchTokenAt (drop i s) \<noteq> None"
proof
  assume "tokenStartsAt s i"
  then show "matchTokenAt (drop i s) \<noteq> None" by (rule matchTokenAt_complete)
next
  assume "matchTokenAt (drop i s) \<noteq> None"
  then obtain r where "matchTokenAt (drop i s) = Some r" by blast
  from matchTokenAt_sound [OF this] show "tokenStartsAt s i"
    unfolding tokenStartsAt_def by blast
qed

lemma matchFirst_skip:
  assumes "\<forall>i < length pre. \<not> tokenStartsAt (pre @ s) i"
  shows "matchFirst (pre @ s) = matchFirst s"
  using assms
proof (induction pre)
  case Nil
  then show ?case by simp
next
  case (Cons a pre)
  from Cons.prems have "\<not> tokenStartsAt ((a # pre) @ s) 0" by simp
  then have none: "matchTokenAt (a # pre @ s) = None" by (simp add: tokenStartsAt_iff)
  have "\<forall>i < length pre. \<not> tokenStartsAt (pre @ s) i"
  proof (intro allI impI)
    fix i assume "i < length pre"
    then have "Suc i < length (a # pre)" by simp
    with Cons.prems have "\<not> tokenStartsAt ((a # pre) @ s) (Suc i)" by blast
    then show "\<not> tokenStartsAt (pre @ s) i" by (simp add: tokenStartsAt_def)
  qed
  from Cons.IH [OF this] none show ?case by simp
qed

lemma tokenStartsAt_digit:
  assumes "tokenStartsAt s i"
  shows "i < length s \<and> isDigit (s ! i)"
proof -
  from assms obtain tok rest where d: "drop i s = tok @ rest" and t: "isTimeToken tok"
    unfolding tokenStartsAt_def by blast
  from t obtain h c m w p where tok: "tok = h @ c @ m @ w @ p"
    and h: "length h = 1 \<or> length h = 2" "list_all isDigit h"
    unfolding isTimeToken_def by blast
  from h(1) obtain x xs where hx: "h = x # xs" by (cases h) auto
  with h(2) have x: "isDigit x" by simp
  from d tok hx have dx: "drop i s = x # xs @ c @ m @ w @ p @ rest" by simp
  then have len: "i < length s" by (metis drop_all linorder_not_less list.distinct(1))
  from dx have "s ! i = x" by (metis len hd_drop_conv_nth list.sel(1))
  with x len show ?thesis by simp
qed

lemma first_token_exists:
  assumes "containsTimeToken str"
  shows "\<exists>pre h c m w p post. str = pre @ h @ c @ m @ w @ p @ post
           \<and> (length h = 1 \<or> length h = 2) \<and> list_all isDigit h
           \<and> (c = [] \<or> c = '':'')
           \<and> (m = [] \<or> (length m = 2 \<and> list_all isDigit m))
           \<and> list_all isWhiteSpace w
           \<and> isPeriodText p
           \<and> (\<forall>i < length pre. \<not> tokenStartsAt str i)"
proof -
  from assms obtain pre0 tok0 post0 where "str = pre0 @ tok0 @ post0" "isTimeToken tok0"
    unfolding containsTimeToken_def by blast
  then have "tokenStartsAt str (length pre0)" unfolding tokenStartsAt_def by auto
  then obtain k where k: "tokenStartsAt str k" and least: "\<forall>i < k. \<not> tokenStartsAt str i"
    using exists_least_iff [of "tokenStartsAt str"] by blast
  from k obtain tok post where d: "drop k str = tok @ post" and t: "isTimeToken tok"
    unfolding tokenStartsAt_def by blast
  from tokenStartsAt_digit [OF k] have len: "k < length str" by simp
  from t obtain h c m w p where tok: "tok = h @ c @ m @ w @ p"
    and conds: "length h = 1 \<or> length h = 2" "list_all isDigit h"
      "c = [] \<or> c = '':''" "m = [] \<or> (length m = 2 \<and> list_all isDigit m)"
      "list_all isWhiteSpace w" "isPeriodText p"
    unfolding isTimeToken_def by blast
  have "str = take k str @ drop k str" by simp
  with d tok have s: "str = take k str @ h @ c @ m @ w @ p @ post" by simp
  from len have "length (take k str) = k" by simp
  with least have "\<forall>i < length (take k str). \<not> tokenStartsAt str i" by simp
  with s conds show ?thesis by blast
qed

lemma parseTimeToMinutes_first_token:
  assumes h: "length h = 1 \<or> length h = 2" "list_all isDigit h"
      and c: "c = [] \<or> c = '':''"
      and m: "m = [] \<or> (length m = 2 \<and> list_all isDigit m)"
      and w: "list_all isWhiteSpace w"
      and p: "isPeriodText p"
      and first: "\<forall>i < length pre. \<not> tokenStartsAt (pre @ h @ c @ m @ w @ p @ post) i"
  shows "parseTimeToMinutes (pre @ h @ c @ m @ w @ p @ post)
          = (if toUpperCase p = ''PM''
             then (if digitsToNat h = 12 then 12 else digitsToNat h + 12)
             else (if digitsToNat h = 12 then 0 else digitsToNat h)) * 60
            + (if m = [] then 0 else digitsToNat m)"
proof -
  from matchFirst_skip [OF first]
  have "parseTimeToMinutes (pre @ h @ c @ m @ w @ p @ post)
      = parseTimeToMinutes (h @ c @ m @ w @ p @ post)"
    by (simp add: parseTimeToMinutes_def)
  with parseTimeToMinutes_of_token [OF h c m w p, of post] show ?thesis by simp
qed

text \<open>
  Claim C6. For every input of \<open>parseTimeToMinutes\<close>: the first token of the pattern in
  the text (a one-or-two digit hour, an optional colon, optional two-digit minutes,
  optional white space, AM or PM in either case), wherever in the text it starts, gives
  hour times 60 plus minutes, the minutes being 0 when left out (\<^verbatim>\<open>2PM\<close> gives 840),
  the hour 12 counting as 0 with AM and as 12 with PM, and any other hour as itself, plus
  12 with PM. Every text in which a token stands has such a first token, and a text in
  which no token stands gives 0. The function is total: no branch of the source raises.
\<close>

theorem parseTimeToMinutes_token:
  "((length h = 1 \<or> length h = 2) \<and> list_all isDigit h
      \<and> (c = [] \<or> c = '':'')
      \<and> (m = [] \<or> (length m = 2 \<and> list_all isDigit m))
      \<and> list_all isWhiteSpace w
      \<and> isPeriodText p
      \<and> (\<forall>i < length pre. \<not> tokenStartsAt (pre @ h @ c @ m @ w @ p @ post) i)
    \<longrightarrow> parseTimeToMinutes (pre @ h @ c @ m @ w @ p @ post)
          = (if toUpperCase p = ''PM''
             then (if digitsToNat h = 12 then 12 else digitsToNat h + 12)
             else (if digitsToNat h = 12 then 0 else digitsToNat h)) * 60
            + (if m = [] then 0 else digitsToNat m))
   \<and> (containsTimeToken str
    \<longrightarrow> (\<exists>before hour colon minute space period after.
          str = before @ hour @ colon @ minute @ space @ period @ after
          \<and> (length hour = 1 \<or> length hour = 2) \<and> list_all isDigit hour
          \<and> (colon = [] \<or> colon = '':'')
          \<and> (minute = [] \<or> (length minute = 2 \<and> list_all isDigit minute))
          \<and> list_all isWhiteSpace space
          \<and> isPeriodText period
          \<and> (\<forall>i < length before. \<not> tokenStartsAt str i)))
   \<and> (\<not> containsTimeToken str \<longrightarrow> parseTimeToMinutes str = 0)
   \<and> parseTimeToMinutes ''2PM'' = 840
   \<and> parseTimeToMinutes ''12AM'' = 0
   \<and> parseTimeToMinutes ''12 PM'' = 720
   \<and> parseTimeToMinutes ''11:30am'' = 690
   \<and> parseTimeToMinutes ''10:00 PM'' = 1320
   \<and> parseTimeToMinutes ''at 2PM'' = 840
   \<and> parseTimeToMinutes '' 2PM'' = 840"
proof (intro conjI impI)
  assume a: "(length h = 1 \<or> length h = 2) \<and> list_all isDigit h
      \<and> (c = [] \<or> c = '':'')
      \<and> (m = [] \<or> (length m = 2 \<and> list_all isDigit m))
      \<and> list_all isWhiteSpace w
      \<and> isPeriodText p
      \<and> (\<forall>i < length pre. \<not> tokenStartsAt (pre @ h @ c @ m @ w @ p @ post) i)"
  then have h: "length h = 1 \<or> length h = 2" "list_all isDigit h"
      and c: "c = [] \<or> c = '':''"
      and m: "m = [] \<or> (length m = 2 \<and> list_all isDigit m)"
      and w: "list_all isWhiteSpace w"
      and p: "isPeriodText p"
      and first: "\<forall>i < length pre. \<not> tokenStartsAt (pre @ h @ c @ m @ w @ p @ post) i"
    by blast+
  from parseTimeToMinutes_first_token [OF h c m w p first]
  show "parseTimeToMinutes (pre @ h @ c @ m @ w @ p @ post)
          = (if toUpperCase p = ''PM''
             then (if digitsToNat h = 12 then 12 else digitsToNat h + 12)
             else (if digitsToNat h = 12 then 0 else digitsToNat h)) * 60
            + (if m = [] then 0 else digitsToNat m)" .
next
  assume "containsTimeToken str"
  from first_token_exists [OF this]
  show "\<exists>before hour colon minute space period after.
          str = before @ hour @ colon @ minute @ space @ period @ after
          \<and> (length hour = 1 \<or> length hour = 2) \<and> list_all isDigit hour
          \<and> (colon = [] \<or> colon = '':'')
          \<and> (minute = [] \<or> (length minute = 2 \<and> list_all isDigit minute))
          \<and> list_all isWhiteSpace space
          \<and> isPeriodText period
          \<and> (\<forall>i < length before. \<not> tokenStartsAt str i)" .
next
  assume "\<not> containsTimeToken str"
  from matchFirst_none [OF this] show "parseTimeToMinutes str = 0"
    by (simp add: parseTimeToMinutes_def)
next
  show "parseTimeToMinutes ''2PM'' = 840" by code_simp
next
  show "parseTimeToMinutes ''12AM'' = 0" by code_simp
next
  show "parseTimeToMinutes ''12 PM'' = 720" by code_simp
next
  show "parseTimeToMinutes ''11:30am'' = 690" by code_simp
next
  show "parseTimeToMinutes ''10:00 PM'' = 1320" by code_simp
next
  show "parseTimeToMinutes ''at 2PM'' = 840" by code_simp
next
  show "parseTimeToMinutes '' 2PM'' = 840" by code_simp
qed

theorem parseTimeToMinutes_token_witness:
  "parseTimeToMinutes ''at 9:05 pm.'' = 21 * 60 + 5
   \<and> containsTimeToken ''at 9:05 pm.''
   \<and> (\<exists>before hour colon minute space period after.
          ''at 9:05 pm.'' = before @ hour @ colon @ minute @ space @ period @ after
          \<and> (length hour = 1 \<or> length hour = 2) \<and> list_all isDigit hour
          \<and> (colon = [] \<or> colon = '':'')
          \<and> (minute = [] \<or> (length minute = 2 \<and> list_all isDigit minute))
          \<and> list_all isWhiteSpace space
          \<and> isPeriodText period
          \<and> (\<forall>i < length before. \<not> tokenStartsAt ''at 9:05 pm.'' i))
   \<and> \<not> containsTimeToken ''noon'' \<and> parseTimeToMinutes ''noon'' = 0"
proof -
  let ?s = "''at '' @ ''9'' @ '':'' @ ''05'' @ '' '' @ ''pm'' @ ''.''"
  have n0: "\<not> isDigit (''at 9:05 pm.'' ! 0)" by (simp add: isDigit_def)
  have n1: "\<not> isDigit (''at 9:05 pm.'' ! 1)" by (simp add: isDigit_def)
  have n2: "\<not> isDigit (''at 9:05 pm.'' ! 2)" by (simp add: isDigit_def)
  have first: "\<forall>i < length ''at ''. \<not> tokenStartsAt ?s i"
  proof (intro allI impI)
    fix i :: nat
    assume "i < length ''at ''"
    then have "i = 0 \<or> i = 1 \<or> i = 2" by auto
    with n0 n1 n2 have "\<not> isDigit (''at 9:05 pm.'' ! i)" by blast
    with tokenStartsAt_digit [of "''at 9:05 pm.''" i] have "\<not> tokenStartsAt ''at 9:05 pm.'' i"
      by blast
    then show "\<not> tokenStartsAt ?s i" by simp
  qed
  have c1: "length ''9'' = 1 \<or> length ''9'' = 2" by simp
  have c2: "list_all isDigit ''9''" by (simp add: isDigit_def)
  have c3: "'':'' = [] \<or> '':'' = '':''" by simp
  have c4: "''05'' = [] \<or> (length ''05'' = 2 \<and> list_all isDigit ''05'')"
    by (simp add: isDigit_def)
  have c5: "list_all isWhiteSpace '' ''" by (simp add: isWhiteSpace_def)
  have c6: "isPeriodText ''pm''" by (simp add: isPeriodText_def)
  note inst = parseTimeToMinutes_token [of "''9''" "'':''" "''05''" "'' ''" "''pm''" "''at ''" "''.''"
      "''at 9:05 pm.''"]
  from c1 c2 c3 c4 c5 c6 first
  have prem: "(length ''9'' = 1 \<or> length ''9'' = 2) \<and> list_all isDigit ''9''
      \<and> ('':'' = [] \<or> '':'' = '':'')
      \<and> (''05'' = [] \<or> (length ''05'' = 2 \<and> list_all isDigit ''05''))
      \<and> list_all isWhiteSpace '' ''
      \<and> isPeriodText ''pm''
      \<and> (\<forall>i < length ''at ''. \<not> tokenStartsAt ?s i)"
    by (intro conjI)
  from inst [THEN conjunct1] prem
  have "parseTimeToMinutes ?s
      = (if toUpperCase ''pm'' = ''PM''
             then (if digitsToNat ''9'' = 12 then 12 else digitsToNat ''9'' + 12)
             else (if digitsToNat ''9'' = 12 then 0 else digitsToNat ''9'')) * 60
            + (if ''05'' = [] then 0 else digitsToNat ''05'')"
    by (rule mp)
  then have a: "parseTimeToMinutes ''at 9:05 pm.'' = 21 * 60 + 5"
    by (simp add: toUpperCase_def toUpperChar_period digitsToNat_def digitVal_def)
  from c1 c2 c3 c4 c5 c6 have "isTimeToken (''9'' @ '':'' @ ''05'' @ '' '' @ ''pm'')"
    unfolding isTimeToken_def by blast
  then have "''at 9:05 pm.'' = ''at '' @ ''9:05 pm'' @ ''.'' \<and> isTimeToken ''9:05 pm''" by simp
  then have b: "containsTimeToken ''at 9:05 pm.''" unfolding containsTimeToken_def by blast
  from inst [THEN conjunct2, THEN conjunct1] b
  have c: "\<exists>before hour colon minute space period after.
          ''at 9:05 pm.'' = before @ hour @ colon @ minute @ space @ period @ after
          \<and> (length hour = 1 \<or> length hour = 2) \<and> list_all isDigit hour
          \<and> (colon = [] \<or> colon = '':'')
          \<and> (minute = [] \<or> (length minute = 2 \<and> list_all isDigit minute))
          \<and> list_all isWhiteSpace space
          \<and> isPeriodText period
          \<and> (\<forall>i < length before. \<not> tokenStartsAt ''at 9:05 pm.'' i)"
    by (rule mp)
  have d: "\<not> containsTimeToken ''noon''"
    by (rule no_digit_no_token) (simp add: isDigit_def)
  from parseTimeToMinutes_token [of _ _ _ _ _ _ _ "''noon''", THEN conjunct2, THEN conjunct2, THEN conjunct1] d
  have e: "parseTimeToMinutes ''noon'' = 0" by (rule mp)
  from a b c d e show ?thesis by (intro conjI)
qed

section \<open>The Daily shorthand\<close>

subsection \<open>All the tokens of a string\<close>













subsection \<open>The first two tokens decide\<close>






section \<open>Splitting and joining\<close>

lemma split_not_empty: "split c s \<noteq> []"
  by (induction s) (auto split: list.splits)

lemma split_no_separator: "c \<notin> set s \<Longrightarrow> split c s = [s]"
  by (induction s) auto

lemma split_first:
  "c \<in> set s \<Longrightarrow>
     split c s = takeWhile (\<lambda>x. x \<noteq> c) s # split c (drop 1 (dropWhile (\<lambda>x. x \<noteq> c) s))"
proof (induction s)
  case Nil
  then show ?case by simp
next
  case (Cons x xs)
  show ?case
  proof (cases "x = c")
    case True
    then show ?thesis by simp
  next
    case False
    with Cons.prems have "c \<in> set xs" by simp
    from Cons.IH [OF this] False show ?thesis by simp
  qed
qed

lemma split_two:
  assumes "c \<in> set s"
  shows "\<exists>q others. split c s = takeWhile (\<lambda>x. x \<noteq> c) s # q # others"
proof -
  obtain q others where "split c (drop 1 (dropWhile (\<lambda>x. x \<noteq> c) s)) = q # others"
    using split_not_empty [of c "drop 1 (dropWhile (\<lambda>x. x \<noteq> c) s)"]
    by (cases "split c (drop 1 (dropWhile (\<lambda>x. x \<noteq> c) s))") auto
  with split_first [OF assms] show ?thesis by simp
qed

lemma one_separator:
  assumes "c \<in> set s" "count_list s c \<le> 1"
  shows "c \<notin> set (drop 1 (dropWhile (\<lambda>x. x \<noteq> c) s))"
proof -
  let ?a = "takeWhile (\<lambda>x. x \<noteq> c) s" and ?b = "dropWhile (\<lambda>x. x \<noteq> c) s"
  from assms(1) have "?b \<noteq> []" by (simp add: dropWhile_eq_Nil_conv)
  then obtain y ys where b: "?b = y # ys" by (cases ?b) auto
  then have "y = c" using hd_dropWhile [of "\<lambda>x. x \<noteq> c" s] by force
  have "s = ?a @ ?b" by simp
  then have "count_list s c = count_list ?a c + count_list ?b c"
    by (metis count_list_append)
  with b \<open>y = c\<close> assms(2) have "count_list ys c = 0" by simp
  then have "c \<notin> set ys" by (simp add: count_list_0_iff)
  with b show ?thesis by simp
qed

lemma split_one_separator:
  assumes "c \<in> set s" "count_list s c \<le> 1"
  shows "split c s = [takeWhile (\<lambda>x. x \<noteq> c) s, drop 1 (dropWhile (\<lambda>x. x \<noteq> c) s)]"
  using split_first [OF assms(1)] split_no_separator [OF one_separator [OF assms]] by simp





section \<open>The day-qualified schedule\<close>













section \<open>The Simple format\<close>

lemma digit_chars: "map (\<lambda>d::nat. char_of (48 + d)) [0..<10] = ''0123456789''"
  by code_simp

lemma digit_char_nth: "(d::nat) < 10 \<Longrightarrow> char_of (48 + d) = ''0123456789'' ! d"
proof -
  assume d: "d < 10"
  then have "map (\<lambda>d::nat. char_of (48 + d)) [0..<10] ! d = char_of (48 + d)"
    by (subst nth_map) simp_all
  then show ?thesis by (simp only: digit_chars)
qed

lemma digit_char_isDigit: "(d::nat) < 10 \<Longrightarrow> isDigit (char_of (48 + d))"
proof -
  assume d: "d < 10"
  then have "''0123456789'' ! d \<in> set ''0123456789''" by (intro nth_mem) simp
  with digit_char_nth [OF d] show ?thesis by (simp only: isDigit_def)
qed

lemma digit_char_val: "(d::nat) < 10 \<Longrightarrow> digitVal (char_of (48 + d)) = d"
  by (simp add: digitVal_def)

lemma two_digits:
  assumes "n < 100"
  shows "padStart2 (natToString n) = [char_of (48 + n div 10), char_of (48 + n mod 10)]"
proof (cases "n < 10")
  case True
  then have "natToString n = [char_of (48 + n)]" by (subst natToString.simps) simp
  moreover have "char_of (48 + (0::nat)) = CHR ''0''" by code_simp
  ultimately show ?thesis using True by (simp add: padStart2_def)
next
  case False
  with assms have "n div 10 < 10" by simp
  then have "natToString (n div 10) = [char_of (48 + n div 10)]" by (subst natToString.simps) simp
  with False have "natToString n = [char_of (48 + n div 10), char_of (48 + n mod 10)]"
    by (subst natToString.simps) simp
  then show ?thesis by (simp add: padStart2_def)
qed

lemma two_digits_value:
  assumes "n < 100"
  shows "digitsToNat [char_of (48 + n div 10), char_of (48 + n mod 10)] = n"
proof -
  from assms have "n div 10 < 10" "n mod 10 < 10" by simp_all
  then show ?thesis by (simp add: digitsToNat_def digit_char_val)
qed

lemma currentTimeString_shape:
  assumes "getHours now < 24" "getMinutes now < 60"
  shows "currentTimeString now
           = [char_of (48 + getHours now div 10), char_of (48 + getHours now mod 10), CHR '':'',
              char_of (48 + getMinutes now div 10), char_of (48 + getMinutes now mod 10)]"
  using assms by (simp add: currentTimeString_def two_digits)

lemma currentTimeString_format:
  assumes "getHours now < 24" "getMinutes now < 60"
  shows "isSimpleTimeText (currentTimeString now)"
    and "length (currentTimeString now) = 5"
    and "digitsToNat (take 2 (currentTimeString now)) = getHours now"
    and "digitsToNat (drop 3 (currentTimeString now)) = getMinutes now"
proof -
  note shape = currentTimeString_shape [OF assms]
  from assms have d: "getHours now div 10 < 10" "getHours now mod 10 < 10"
    "getMinutes now div 10 < 10" "getMinutes now mod 10 < 10" by simp_all
  from d show "isSimpleTimeText (currentTimeString now)"
    unfolding simpleTimePattern_spec [symmetric] shape
    by (simp add: simpleTimePattern_def simpleTail_def digit_char_isDigit)
  show "length (currentTimeString now) = 5" by (simp add: shape)
  from assms show "digitsToNat (take 2 (currentTimeString now)) = getHours now"
    by (simp add: shape two_digits_value)
  from assms show "digitsToNat (drop 3 (currentTimeString now)) = getMinutes now"
    by (simp add: shape two_digits_value)
qed

lemma simple_status_record:
  assumes "detectHoursFormat opening closing = Simple"
  shows "getRestaurantStatus now opening closing = parseSimpleHours now opening closing"
  using assms by (simp add: getRestaurantStatus_def)

text \<open>
  Claim C2, amended. For every pair of Simple-format strings \<open>opening\<close> and \<open>closing\<close>
  and every current instant, \<open>getRestaurantStatus\<close> formats the current time as a
  zero-padded \<^verbatim>\<open>HH:MM\<close> string and returns \<open>isOpen\<close> as \<open>opening \<le> now \<le> closing\<close> in
  the lexicographic order of strings, both ends included (a current time equal to
  \<open>opening\<close> or to \<open>closing\<close> is open when \<open>opening \<le> closing\<close>). \<open>nextChange\<close> is
  \<^verbatim>\<open>Closes at\<close> with the 12-hour rendering of \<open>closing\<close> when open, \<^verbatim>\<open>Opens at\<close> with
  the 12-hour rendering of \<open>opening\<close> when \<open>now < opening\<close>, and absent when
  \<open>now > closing\<close> and \<open>now \<ge> opening\<close>; one of the three cases always holds.
\<close>

theorem simple_hours_status:
  "(detectHoursFormat opening closing = Simple \<longrightarrow>
      isOpen (getRestaurantStatus now opening closing)
        = (strLessEq opening (currentTimeString now) \<and> strLessEq (currentTimeString now) closing)
      \<and> (isOpen (getRestaurantStatus now opening closing) \<longrightarrow>
           nextChange (getRestaurantStatus now opening closing)
             = Some (''Closes at '' @ convertTo12Hour closing))
      \<and> (strLess (currentTimeString now) opening \<longrightarrow>
           \<not> isOpen (getRestaurantStatus now opening closing)
           \<and> nextChange (getRestaurantStatus now opening closing)
             = Some (''Opens at '' @ convertTo12Hour opening))
      \<and> (strLess closing (currentTimeString now) \<and> strLessEq opening (currentTimeString now) \<longrightarrow>
           \<not> isOpen (getRestaurantStatus now opening closing)
           \<and> nextChange (getRestaurantStatus now opening closing) = None)
      \<and> (isOpen (getRestaurantStatus now opening closing)
           \<or> strLess (currentTimeString now) opening
           \<or> (strLess closing (currentTimeString now) \<and> strLessEq opening (currentTimeString now)))
      \<and> (strLessEq opening closing
           \<and> (currentTimeString now = opening \<or> currentTimeString now = closing) \<longrightarrow>
           isOpen (getRestaurantStatus now opening closing)))
   \<and> (getHours now < 24 \<and> getMinutes now < 60 \<longrightarrow>
        isSimpleTimeText (currentTimeString now)
        \<and> length (currentTimeString now) = 5
        \<and> digitsToNat (take 2 (currentTimeString now)) = getHours now
        \<and> digitsToNat (drop 3 (currentTimeString now)) = getMinutes now)"
proof (rule conjI; rule impI)
  let ?ct = "currentTimeString now"
  let ?s = "getRestaurantStatus now opening closing"
  assume simple: "detectHoursFormat opening closing = Simple"
  note rec = simple_status_record [OF simple, of now]
  have open_iff: "isOpen ?s = (strLessEq opening ?ct \<and> strLessEq ?ct closing)"
    by (simp add: rec parseSimpleHours_def Let_def)
  have closes: "isOpen ?s \<longrightarrow> nextChange ?s = Some (''Closes at '' @ convertTo12Hour closing)"
    by (simp add: rec parseSimpleHours_def Let_def)
  have opens: "strLess ?ct opening \<longrightarrow>
      \<not> isOpen ?s \<and> nextChange ?s = Some (''Opens at '' @ convertTo12Hour opening)"
  proof
    assume b: "strLess ?ct opening"
    from strLess_not_leq [OF b] have "\<not> strLessEq opening ?ct" .
    with b show "\<not> isOpen ?s \<and> nextChange ?s = Some (''Opens at '' @ convertTo12Hour opening)"
      by (simp add: rec parseSimpleHours_def Let_def)
  qed
  have absent: "strLess closing ?ct \<and> strLessEq opening ?ct \<longrightarrow>
      \<not> isOpen ?s \<and> nextChange ?s = None"
  proof
    assume a: "strLess closing ?ct \<and> strLessEq opening ?ct"
    then have "\<not> strLessEq ?ct closing" "\<not> strLess ?ct opening"
      using strLess_not_leq strLessEq_not_less by blast+
    then show "\<not> isOpen ?s \<and> nextChange ?s = None"
      by (simp add: rec parseSimpleHours_def Let_def)
  qed
  have cases: "isOpen ?s \<or> strLess ?ct opening
      \<or> (strLess closing ?ct \<and> strLessEq opening ?ct)"
    unfolding open_iff using not_strLess [of ?ct "opening"] not_strLessEq [of ?ct "closing"]
    by blast
  have bounds: "strLessEq opening closing \<and> (?ct = opening \<or> ?ct = closing) \<longrightarrow> isOpen ?s"
    unfolding open_iff using strLessEq_refl by auto
  from open_iff closes opens absent cases bounds
  show "isOpen ?s = (strLessEq opening ?ct \<and> strLessEq ?ct closing)
      \<and> (isOpen ?s \<longrightarrow> nextChange ?s = Some (''Closes at '' @ convertTo12Hour closing))
      \<and> (strLess ?ct opening \<longrightarrow>
           \<not> isOpen ?s \<and> nextChange ?s = Some (''Opens at '' @ convertTo12Hour opening))
      \<and> (strLess closing ?ct \<and> strLessEq opening ?ct \<longrightarrow>
           \<not> isOpen ?s \<and> nextChange ?s = None)
      \<and> (isOpen ?s \<or> strLess ?ct opening \<or> (strLess closing ?ct \<and> strLessEq opening ?ct))
      \<and> (strLessEq opening closing \<and> (?ct = opening \<or> ?ct = closing) \<longrightarrow> isOpen ?s)"
    by (intro conjI)
next
  assume "getHours now < 24 \<and> getMinutes now < 60"
  then have "getHours now < 24" "getMinutes now < 60" by simp_all
  from currentTimeString_format [OF this]
  show "isSimpleTimeText (currentTimeString now)
        \<and> length (currentTimeString now) = 5
        \<and> digitsToNat (take 2 (currentTimeString now)) = getHours now
        \<and> digitsToNat (drop 3 (currentTimeString now)) = getMinutes now"
    by (intro conjI)
qed

theorem simple_hours_status_witness:
  "nextChange (getRestaurantStatus \<lparr>getDay = 2, getHours = 14, getMinutes = 0\<rparr> ''11:00'' ''22:00'')
     = Some ''Closes at 10:00 PM''
   \<and> nextChange (getRestaurantStatus \<lparr>getDay = 2, getHours = 14, getMinutes = 0\<rparr> ''18:00'' ''23:00'')
     = Some ''Opens at 6:00 PM''
   \<and> nextChange (getRestaurantStatus \<lparr>getDay = 2, getHours = 14, getMinutes = 0\<rparr> ''09:00'' ''13:00'')
     = None
   \<and> isOpen (getRestaurantStatus \<lparr>getDay = 2, getHours = 14, getMinutes = 0\<rparr> ''11:00'' ''14:00'')
   \<and> isOpen (getRestaurantStatus \<lparr>getDay = 2, getHours = 14, getMinutes = 0\<rparr> ''14:00'' ''22:00'')
   \<and> length (currentTimeString \<lparr>getDay = 2, getHours = 9, getMinutes = 5\<rparr>) = 5"
proof -
  let ?now = "\<lparr>getDay = 2, getHours = 14, getMinutes = 0\<rparr>"
  have ct: "currentTimeString ?now = ''14:00''" by code_simp
  have a1: "detectHoursFormat ''11:00'' ''22:00'' = Simple" by code_simp
  have a2: "strLessEq ''11:00'' ''14:00'' \<and> strLessEq ''14:00'' ''22:00''" by code_simp
  have a3: "convertTo12Hour ''22:00'' = ''10:00 PM''" by code_simp
  from simple_hours_status [of "''11:00''" "''22:00''" ?now] a1 a2 a3 ct
  have first: "nextChange (getRestaurantStatus ?now ''11:00'' ''22:00'') = Some ''Closes at 10:00 PM''"
    by simp
  have b1: "detectHoursFormat ''18:00'' ''23:00'' = Simple" by code_simp
  have b2: "strLess ''14:00'' ''18:00''" by code_simp
  have b3: "convertTo12Hour ''18:00'' = ''6:00 PM''" by code_simp
  from simple_hours_status [of "''18:00''" "''23:00''" ?now] b1 b2 b3 ct
  have second: "nextChange (getRestaurantStatus ?now ''18:00'' ''23:00'') = Some ''Opens at 6:00 PM''"
    by simp
  have c1: "detectHoursFormat ''09:00'' ''13:00'' = Simple" by code_simp
  have c2: "strLess ''13:00'' ''14:00'' \<and> strLessEq ''09:00'' ''14:00''" by code_simp
  from simple_hours_status [of "''09:00''" "''13:00''" ?now] c1 c2 ct
  have third: "nextChange (getRestaurantStatus ?now ''09:00'' ''13:00'') = None"
    by simp
  have d1: "detectHoursFormat ''11:00'' ''14:00'' = Simple" by code_simp
  have d2: "strLessEq ''11:00'' ''14:00''" by code_simp
  have refl: "strLessEq ''14:00'' ''14:00''" by code_simp
  from simple_hours_status [of "''11:00''" "''14:00''" ?now] d1 d2 ct refl
  have fourth: "isOpen (getRestaurantStatus ?now ''11:00'' ''14:00'')"
    by simp
  have e1: "detectHoursFormat ''14:00'' ''22:00'' = Simple" by code_simp
  have e2: "strLessEq ''14:00'' ''22:00''" by code_simp
  from simple_hours_status [of "''14:00''" "''22:00''" ?now] e1 e2 ct refl
  have fifth: "isOpen (getRestaurantStatus ?now ''14:00'' ''22:00'')"
    by simp
  from simple_hours_status [of _ _ "\<lparr>getDay = 2, getHours = 9, getMinutes = 5\<rparr>"]
  have sixth: "length (currentTimeString \<lparr>getDay = 2, getHours = 9, getMinutes = 5\<rparr>) = 5"
    by simp
  from first second third fourth fifth sixth show ?thesis by (intro conjI)
qed

text \<open>
  The claim as first stated has \<open>nextChange\<close> absent whenever \<open>now > closing\<close>. With an
  opening time after the closing time (18:00 to 02:00) and the current time between the
  two (10:00), the current time is past \<open>closing\<close> and \<open>nextChange\<close> is present.
\<close>

theorem simple_hours_counterexample:
  "detectHoursFormat ''18:00'' ''02:00'' = Simple
   \<and> strLess ''02:00'' (currentTimeString \<lparr>getDay = 2, getHours = 10, getMinutes = 0\<rparr>)
   \<and> nextChange (getRestaurantStatus \<lparr>getDay = 2, getHours = 10, getMinutes = 0\<rparr> ''18:00'' ''02:00'')
     = Some ''Opens at 6:00 PM''"
  by code_simp

section \<open>The bounds of a day part\<close>

lemma includesStr_char: "includesStr s [c] \<longleftrightarrow> c \<in> set s"
  by (induction s) auto

lemma isDayInRange_unresolved: "\<not> isDayInRange day None None"
  by (simp add: isDayInRange_def)

text \<open>
  Claim C4, amended. For every day-part token of a clause: a token with a hyphen is split
  at every hyphen and its first two pieces, trimmed, are resolved as the start and the
  end day (a token with one hyphen is split as at its first hyphen; in a token with a
  second hyphen, such as \<^verbatim>\<open>Mon-Tue-Wed\<close>, the end side is the piece between the first
  two hyphens and what follows is ignored); a token without a hyphen gives the single
  resolved day for both bounds; and a token none of whose names resolve in the day map
  gives a clause that matches no day. No branch raises an error.
\<close>

theorem day_part_bounds:
  "(includesStr dayPart ''-'' \<longrightarrow>
      (\<exists>start end' others. split CHR ''-'' dayPart = start # end' # others
         \<and> dayBounds dayPart = (dayMap (trim start), dayMap (trim end'))))
   \<and> (includesStr dayPart ''-'' \<and> count_list dayPart CHR ''-'' \<le> 1 \<longrightarrow>
      dayBounds dayPart = specResolveRange dayPart)
   \<and> (\<not> includesStr dayPart ''-'' \<longrightarrow>
      dayBounds dayPart = (dayMap dayPart, dayMap dayPart)
      \<and> dayBounds dayPart = specResolveRange dayPart)
   \<and> (split CHR '':'' schedule = p # q # ps
       \<and> dayBounds (toLowerCase (trim p)) = (None, None) \<longrightarrow>
      \<not> clauseDayMatches day schedule \<and> clauseHit day t schedule = None)"
proof (intro conjI impI)
  assume "includesStr dayPart ''-''"
  then have mem: "CHR ''-'' \<in> set dayPart" by (simp add: includesStr_char)
  from split_two [OF mem] obtain start end' others where
    s: "split CHR ''-'' dayPart = start # end' # others" by blast
  with \<open>includesStr dayPart ''-''\<close>
  have "dayBounds dayPart = (dayMap (trim start), dayMap (trim end'))"
    by (simp add: dayBounds_def)
  with s show "\<exists>start end' others. split CHR ''-'' dayPart = start # end' # others
         \<and> dayBounds dayPart = (dayMap (trim start), dayMap (trim end'))"
    by blast
next
  assume a: "includesStr dayPart ''-'' \<and> count_list dayPart CHR ''-'' \<le> 1"
  then have mem: "CHR ''-'' \<in> set dayPart" and one: "count_list dayPart CHR ''-'' \<le> 1"
    by (simp_all add: includesStr_char)
  from split_one_separator [OF mem one] a mem
  show "dayBounds dayPart = specResolveRange dayPart"
    by (simp add: dayBounds_def specResolveRange_def splitOnce_def)
next
  assume a: "\<not> includesStr dayPart ''-''"
  then show "dayBounds dayPart = (dayMap dayPart, dayMap dayPart)"
    by (simp add: dayBounds_def)
next
  assume a: "\<not> includesStr dayPart ''-''"
  then have "CHR ''-'' \<notin> set dayPart" by (simp add: includesStr_char)
  with a show "dayBounds dayPart = specResolveRange dayPart"
    by (simp add: dayBounds_def specResolveRange_def)
next
  assume a: "split CHR '':'' schedule = p # q # ps
       \<and> dayBounds (toLowerCase (trim p)) = (None, None)"
  then show "\<not> clauseDayMatches day schedule"
    by (simp add: clauseDayMatches_def isDayInRange_unresolved)
next
  assume a: "split CHR '':'' schedule = p # q # ps
       \<and> dayBounds (toLowerCase (trim p)) = (None, None)"
  then have "\<not> clauseDayMatches day schedule"
    by (simp add: clauseDayMatches_def isDayInRange_unresolved)
  then show "clauseHit day t schedule = None" by (simp add: clauseHit_def)
qed

theorem day_part_bounds_witness:
  "dayBounds ''mon-tue-wed'' = (Some 1, Some 2)
   \<and> dayBounds ''fri-sun'' = specResolveRange ''fri-sun''
   \<and> dayBounds ''fri'' = (Some 5, Some 5)
   \<and> \<not> clauseDayMatches 3 ''Xyz-Abc: 11AM-10PM''
   \<and> \<not> clauseDayMatches 3 ''Someday: 11AM-10PM''"
proof -
  have a1: "includesStr ''mon-tue-wed'' ''-''" by code_simp
  have a2: "split CHR ''-'' ''mon-tue-wed'' = [''mon'', ''tue'', ''wed'']" by code_simp
  have a3: "dayMap (trim ''mon'') = Some 1 \<and> dayMap (trim ''tue'') = Some 2" by code_simp
  from day_part_bounds [of "''mon-tue-wed''"] a1 a2 a3
  have first: "dayBounds ''mon-tue-wed'' = (Some 1, Some 2)" by auto
  have b1: "includesStr ''fri-sun'' ''-'' \<and> count_list ''fri-sun'' CHR ''-'' \<le> 1" by code_simp
  from day_part_bounds [of "''fri-sun''"] b1
  have second: "dayBounds ''fri-sun'' = specResolveRange ''fri-sun''" by blast
  have c1: "\<not> includesStr ''fri'' ''-''" by code_simp
  have c2: "dayMap ''fri'' = Some 5" by code_simp
  from day_part_bounds [of "''fri''"] c1 c2
  have third: "dayBounds ''fri'' = (Some 5, Some 5)" by simp
  have d1: "split CHR '':'' ''Xyz-Abc: 11AM-10PM'' = ''Xyz-Abc'' # '' 11AM-10PM'' # []" by code_simp
  have d2: "dayBounds (toLowerCase (trim ''Xyz-Abc'')) = (None, None)" by code_simp
  from day_part_bounds [of _ "''Xyz-Abc: 11AM-10PM''" "''Xyz-Abc''" "'' 11AM-10PM''" "[]" 3] d1 d2
  have fourth: "\<not> clauseDayMatches 3 ''Xyz-Abc: 11AM-10PM''" by blast
  have e1: "split CHR '':'' ''Someday: 11AM-10PM'' = ''Someday'' # '' 11AM-10PM'' # []" by code_simp
  have e2: "dayBounds (toLowerCase (trim ''Someday'')) = (None, None)" by code_simp
  from day_part_bounds [of _ "''Someday: 11AM-10PM''" "''Someday''" "'' 11AM-10PM''" "[]" 3] e1 e2
  have fifth: "\<not> clauseDayMatches 3 ''Someday: 11AM-10PM''" by blast
  from first second third fourth fifth show ?thesis by (intro conjI)
qed

text \<open>
  The claim as first stated takes everything behind the first hyphen as the end side:
  \<^verbatim>\<open>tue-wed\<close> for \<^verbatim>\<open>Mon-Tue-Wed\<close>, a name that does not resolve, so the clause would
  match no day. The source resolves \<^verbatim>\<open>tue\<close>, and the clause is open on Tuesday.
\<close>

theorem day_part_bounds_counterexample:
  "specResolveRange ''mon-tue-wed'' = (Some 1, None)
   \<and> dayBounds ''mon-tue-wed'' = (Some 1, Some 2)
   \<and> clauseDayMatches 2 ''Mon-Tue-Wed: 11AM-10PM''
   \<and> isOpen (getRestaurantStatus \<lparr>getDay = 2, getHours = 19, getMinutes = 0\<rparr>
               ''Mon-Tue-Wed: 11AM-10PM'' '''')"
  by code_simp

text \<open>
  A range with one side that resolves and one that does not is outside the amended
  claim. The test against \<^verbatim>\<open>null\<close> lets the \<^verbatim>\<open>undefined\<close> bound pass, and the
  comparisons with it are false, so \<^verbatim>\<open>Mon-Xyz\<close> matches every day from Monday on.
\<close>

lemma half_resolved_range_matches:
  "dayBounds ''mon-xyz'' = (Some 1, None)"
  "clauseDayMatches 4 ''Mon-Xyz: 11AM-10PM''"
  "isOpen (getRestaurantStatus \<lparr>getDay = 4, getHours = 19, getMinutes = 0\<rparr> ''Mon-Xyz: 11AM-10PM'' '''')"
  by code_simp+

end
